theory Spec2Isabelle
  imports Main
begin

section \<open>Credential and session lifecycle of the authentication controller\<close>

text \<open>
  The development embeds \<^verbatim>\<open>utils/auth.utils\<close> (\<^verbatim>\<open>generateTokens\<close>,
  \<^verbatim>\<open>verifyRefreshToken\<close>, \<^verbatim>\<open>authenticate\<close>), the soft-delete middleware of
  \<^verbatim>\<open>services/prisma.service\<close> and the handlers of \<^verbatim>\<open>AuthController\<close>
  (\<^verbatim>\<open>register\<close>, \<^verbatim>\<open>login\<close>, \<^verbatim>\<open>refreshToken\<close>, \<^verbatim>\<open>logout\<close>,
  \<^verbatim>\<open>forgotPassword\<close>, \<^verbatim>\<open>resetPassword\<close>).

  Conventions.
  \<^item> Time is \<^verbatim>\<open>Date.now()\<close>: milliseconds since the epoch, an \<open>int\<close>. A handler reads
    the clock once; the steps it is made of take their own reading, so that steps of
    different requests can be interleaved.
  \<^item> The database is a record of three tables, each a list of rows in insertion order.
    A handler returns the database it leaves behind together with either the error it
    threw or the response it sent: a throw after a write keeps the write.
  \<^item> Every \<^verbatim>\<open>await\<close> on a Prisma call is one atomic step on the database. The
    handlers are the sequential composition of their steps.
  \<^item> The handlers are the bodies passed to \<^verbatim>\<open>asyncHandler\<close>: they run on requests
    that the zod schemas of \<^verbatim>\<open>validateRequest\<close> have accepted.
\<close>

subsection \<open>Errors and time\<close>

type_synonym ident = nat
type_synonym instant = int

text \<open>
  \<open>AppError message statusCode\<close> is the controller's own error. \<open>PrismaError code\<close> is
  a failed database call (\<^verbatim>\<open>P2002\<close> unique constraint, \<^verbatim>\<open>P2025\<close> record to update
  not found). \<open>SignError\<close> is \<^verbatim>\<open>jwt.sign\<close> throwing.
\<close>

datatype error = AppError string nat | PrismaError string | SignError

subsection \<open>The jsonwebtoken library\<close>

text \<open>
  A compact JWT is determined by its payload and by the key of its HMAC signature, so a
  token is modelled as that pair; \<open>NotAJwt\<close> is any other string a client may send.
  Signing is deterministic: equal payloads signed with equal keys are equal tokens.
  \<open>payload_iat\<close> and \<open>payload_exp\<close> are in seconds, as the library writes them.
\<close>

record token_payload =
  payload_userId :: ident
  payload_type :: string
  payload_iat :: int
  payload_exp :: int

datatype jwt = Jwt token_payload string | NotAJwt string

text \<open>
  An \<^verbatim>\<open>expiresIn\<close> string as the library's \<^verbatim>\<open>ms\<close> parser reads it: a number of
  milliseconds, or nothing when the string is no time span.
\<close>

datatype timespan = Millis int | NoTimespan

datatype verify_error = JsonWebTokenError | TokenExpiredError

text \<open>
  \<^verbatim>\<open>jwt.sign(payload, secret, {expiresIn})\<close>: throws on a missing or empty secret and
  on an unreadable time span; otherwise \<open>iat = floor(now / 1000)\<close> and
  \<open>exp = floor(iat + ms / 1000)\<close>.
\<close>

definition jwt_sign :: "ident \<Rightarrow> string \<Rightarrow> string option \<Rightarrow> timespan \<Rightarrow> instant \<Rightarrow> error + jwt" where
  "jwt_sign uid ty secret expiresIn now =
     (case secret of
        None \<Rightarrow> Inl SignError
      | Some k \<Rightarrow>
          if k = [] then Inl SignError
          else (case expiresIn of
                  NoTimespan \<Rightarrow> Inl SignError
                | Millis m \<Rightarrow>
                    Inr (Jwt \<lparr>payload_userId = uid, payload_type = ty,
                              payload_iat = now div 1000,
                              payload_exp = now div 1000 + m div 1000\<rparr> k)))"

text \<open>
  \<^verbatim>\<open>jwt.verify(token, secret)\<close>: throws \<^verbatim>\<open>JsonWebTokenError\<close> on a missing secret, a
  malformed token or a signature made with another key, and \<^verbatim>\<open>TokenExpiredError\<close>
  when \<open>floor(now / 1000) \<ge> exp\<close>; otherwise it returns the payload.
\<close>

definition jwt_verify :: "jwt \<Rightarrow> string option \<Rightarrow> instant \<Rightarrow> verify_error + token_payload" where
  "jwt_verify tok secret now =
     (case secret of
        None \<Rightarrow> Inl JsonWebTokenError
      | Some k \<Rightarrow>
          if k = [] then Inl JsonWebTokenError
          else (case tok of
                  NotAJwt _ \<Rightarrow> Inl JsonWebTokenError
                | Jwt payload key \<Rightarrow>
                    if key \<noteq> k then Inl JsonWebTokenError
                    else if now div 1000 \<ge> payload_exp payload then Inl TokenExpiredError
                    else Inr payload))"

subsection \<open>bcrypt\<close>

text \<open>
  The hash provider, idealised: a digest is determined by the secret it was made from
  and matches no other secret. Salt and cost factor are not modelled.
\<close>

datatype digest = Bcrypt string

definition bcrypt_hash :: "string \<Rightarrow> digest" where
  "bcrypt_hash secret = Bcrypt secret"

definition bcrypt_compare :: "string \<Rightarrow> digest \<Rightarrow> bool" where
  "bcrypt_compare secret d = (d = Bcrypt secret)"

subsection \<open>Configuration\<close>

text \<open>
  \<^verbatim>\<open>process.env\<close>. A secret is \<open>None\<close> when the variable is unset. A lifetime is
  \<open>None\<close> when the variable is unset or empty, the cases in which \<^verbatim>\<open>||\<close> takes the
  default.
\<close>

record env =
  JWT_SECRET :: "string option"
  JWT_REFRESH_SECRET :: "string option"
  JWT_EXPIRES_IN :: "timespan option"
  JWT_REFRESH_EXPIRES_IN :: "timespan option"

subsection \<open>auth.utils\<close>

definition generateTokens :: "env \<Rightarrow> instant \<Rightarrow> ident \<Rightarrow> error + jwt \<times> jwt" where
  "generateTokens e now uid =
     (case jwt_sign uid ''access'' (JWT_SECRET e)
             (case JWT_EXPIRES_IN e of None \<Rightarrow> Millis (15 * 60 * 1000) | Some t \<Rightarrow> t) now of
        Inl err \<Rightarrow> Inl err
      | Inr accessToken \<Rightarrow>
          (case jwt_sign uid ''refresh'' (JWT_REFRESH_SECRET e)
                  (case JWT_REFRESH_EXPIRES_IN e of
                     None \<Rightarrow> Millis (7 * 24 * 60 * 60 * 1000) | Some t \<Rightarrow> t) now of
             Inl err \<Rightarrow> Inl err
           | Inr refreshToken \<Rightarrow> Inr (accessToken, refreshToken)))"

definition verifyRefreshToken :: "env \<Rightarrow> instant \<Rightarrow> jwt \<Rightarrow> token_payload option" where
  "verifyRefreshToken e now tok =
     (case jwt_verify tok (JWT_REFRESH_SECRET e) now of
        Inl _ \<Rightarrow> None
      | Inr payload \<Rightarrow> if payload_type payload \<noteq> ''refresh'' then None else Some payload)"

text \<open>
  The \<^verbatim>\<open>Authorization\<close> header as \<^verbatim>\<open>authenticate\<close> reads it: absent, \<^verbatim>\<open>Bearer\<close>
  followed by a token, or anything else; an empty token after \<^verbatim>\<open>Bearer\<close> is falsy and
  counts as no token. \<^verbatim>\<open>TokenExpiredError\<close> is a subclass of \<^verbatim>\<open>JsonWebTokenError\<close>, so
  the first \<^verbatim>\<open>instanceof\<close> test catches both. The result is the \<^verbatim>\<open>req.user.id\<close>
  handed to the next handler.
\<close>

datatype auth_header = NoHeader | Bearer jwt | OtherHeader string

definition authenticate :: "env \<Rightarrow> instant \<Rightarrow> auth_header \<Rightarrow> error + ident" where
  "authenticate e now h =
     (case h of
        Bearer tok \<Rightarrow>
          if tok = NotAJwt [] then Inl (AppError ''Authentication required'' 401)
          else (case jwt_verify tok (JWT_SECRET e) now of
                  Inl _ \<Rightarrow> Inl (AppError ''Invalid token'' 401)
                | Inr payload \<Rightarrow>
                    if payload_type payload \<noteq> ''access''
                    then Inl (AppError ''Invalid token type'' 401)
                    else Inr (payload_userId payload))
      | _ \<Rightarrow> Inl (AppError ''Authentication required'' 401))"

subsection \<open>The database\<close>

text \<open>
  Modelled from the spec: the Prisma schema, which declares the tables, is not among the
  sources. The rows carry the fields the controller reads and writes, under the names
  it uses; \<open>createdAt\<close> of a refresh token is the field the specification lists for a
  RefreshRecord, set when the row is created. The only constraints enforced are the
  ones the calls themselves rely on: \<open>id\<close> is the primary key of every table and
  \<open>email\<close> is unique among users. Profile data of a user (preferences, roles, avatar)
  is not tracked. Primary keys are generated by the database: the model takes an
  identifier that no row of the table carries.
\<close>

record row =
  id' :: ident

record user = row +
  email :: string
  password :: digest
  name :: string
  lastLoginAt :: "instant option"
  deletedAt :: "instant option"

record credential_row = row +
  token :: jwt
  userId :: ident
  expiresAt :: instant

record refresh_token = credential_row +
  createdAt :: instant

record password_reset = credential_row +
  used :: bool

record store =
  users :: "user list"
  refreshTokens :: "refresh_token list"
  passwordResets :: "password_reset list"

definition fresh_id :: "ident list \<Rightarrow> ident" where
  "fresh_id ids = Suc (fold max ids 0)"

text \<open>
  \<^verbatim>\<open>User\<close> is one of the soft-delete models of the middleware in
  \<^verbatim>\<open>PrismaService.setupMiddleware\<close>: \<^verbatim>\<open>findUnique\<close> becomes \<^verbatim>\<open>findFirst\<close> with
  \<^verbatim>\<open>deletedAt: null\<close> added, and \<^verbatim>\<open>update\<close> becomes \<^verbatim>\<open>updateMany\<close> with
  \<^verbatim>\<open>deletedAt: null\<close> added, which reports a count and never throws.
  \<^verbatim>\<open>findUnique({where: {email}})\<close> requires \<^verbatim>\<open>email\<close> to be a unique column, so
  \<^verbatim>\<open>create\<close> fails with \<^verbatim>\<open>P2002\<close> when any row, soft-deleted or not, has the email.
\<close>

definition user_findUnique :: "store \<Rightarrow> string \<Rightarrow> user option" where
  "user_findUnique s em = find (\<lambda>u. email u = em \<and> deletedAt u = None) (users s)"

definition user_create :: "store \<Rightarrow> string \<Rightarrow> digest \<Rightarrow> string \<Rightarrow> error + store \<times> user" where
  "user_create s em hashedPassword nm =
     (if \<exists>u \<in> set (users s). email u = em then Inl (PrismaError ''P2002'')
      else
        (let u = \<lparr>id' = fresh_id (map id' (users s)), email = em, password = hashedPassword,
                   name = nm, lastLoginAt = None, deletedAt = None\<rparr>
         in Inr (s\<lparr>users := users s @ [u]\<rparr>, u)))"

definition user_update_lastLoginAt :: "store \<Rightarrow> ident \<Rightarrow> instant \<Rightarrow> store" where
  "user_update_lastLoginAt s uid t =
     s\<lparr>users := map (\<lambda>u. if id' u = uid \<and> deletedAt u = None
                           then u\<lparr>lastLoginAt := Some t\<rparr> else u) (users s)\<rparr>"

definition user_update_password :: "store \<Rightarrow> ident \<Rightarrow> digest \<Rightarrow> store" where
  "user_update_password s uid hashedPassword =
     s\<lparr>users := map (\<lambda>u. if id' u = uid \<and> deletedAt u = None
                           then u\<lparr>password := hashedPassword\<rparr> else u) (users s)\<rparr>"

text \<open>\<^verbatim>\<open>RefreshToken\<close> and \<^verbatim>\<open>PasswordReset\<close> are not soft-delete models.\<close>

definition refreshToken_create :: "store \<Rightarrow> jwt \<Rightarrow> ident \<Rightarrow> instant \<Rightarrow> instant \<Rightarrow> store" where
  "refreshToken_create s tok uid expires now =
     s\<lparr>refreshTokens := refreshTokens s @
          [\<lparr>id' = fresh_id (map id' (refreshTokens s)), token = tok, userId = uid,
            expiresAt = expires, createdAt = now\<rparr>]\<rparr>"

definition refreshToken_deleteMany :: "store \<Rightarrow> ident \<Rightarrow> store" where
  "refreshToken_deleteMany s uid =
     s\<lparr>refreshTokens := filter (\<lambda>r. userId r \<noteq> uid) (refreshTokens s)\<rparr>"

definition refreshToken_findFirst :: "store \<Rightarrow> jwt \<Rightarrow> ident \<Rightarrow> instant \<Rightarrow> refresh_token option" where
  "refreshToken_findFirst s tok uid now =
     find (\<lambda>r. token r = tok \<and> userId r = uid \<and> expiresAt r > now) (refreshTokens s)"

definition refreshToken_update :: "store \<Rightarrow> ident \<Rightarrow> jwt \<Rightarrow> instant \<Rightarrow> error + store" where
  "refreshToken_update s i tok expires =
     (if \<exists>r \<in> set (refreshTokens s). id' r = i
      then Inr (s\<lparr>refreshTokens :=
                    map (\<lambda>r. if id' r = i then r\<lparr>token := tok, expiresAt := expires\<rparr> else r)
                        (refreshTokens s)\<rparr>)
      else Inl (PrismaError ''P2025''))"

definition passwordReset_create :: "store \<Rightarrow> jwt \<Rightarrow> ident \<Rightarrow> instant \<Rightarrow> store" where
  "passwordReset_create s tok uid expires =
     s\<lparr>passwordResets := passwordResets s @
          [\<lparr>id' = fresh_id (map id' (passwordResets s)), token = tok, userId = uid,
            expiresAt = expires, used = False\<rparr>]\<rparr>"

definition passwordReset_findFirst :: "store \<Rightarrow> jwt \<Rightarrow> ident \<Rightarrow> instant \<Rightarrow> password_reset option" where
  "passwordReset_findFirst s tok uid now =
     find (\<lambda>r. token r = tok \<and> userId r = uid \<and> used r = False \<and> expiresAt r > now)
          (passwordResets s)"

definition passwordReset_update_used :: "store \<Rightarrow> ident \<Rightarrow> error + store" where
  "passwordReset_update_used s i =
     (if \<exists>r \<in> set (passwordResets s). id' r = i
      then Inr (s\<lparr>passwordResets :=
                    map (\<lambda>r. if id' r = i then r\<lparr>used := True\<rparr> else r) (passwordResets s)\<rparr>)
      else Inl (PrismaError ''P2025''))"

text \<open>
  \<^verbatim>\<open>$transaction([user.update(..), passwordReset.update(..)])\<close>: both writes or, when
  one of them throws, neither.
\<close>

definition reset_transaction :: "store \<Rightarrow> ident \<Rightarrow> digest \<Rightarrow> ident \<Rightarrow> error + store" where
  "reset_transaction s uid hashedPassword resetId =
     passwordReset_update_used (user_update_password s uid hashedPassword) resetId"

subsection \<open>Responses\<close>

record user_response =
  ur_id :: ident
  ur_email :: string
  ur_name :: string

definition formatUserResponse :: "user \<Rightarrow> user_response" where
  "formatUserResponse u = \<lparr>ur_id = id' u, ur_email = email u, ur_name = name u\<rparr>"

datatype body =
    AuthData user_response jwt jwt
  | TokenData jwt jwt
  | MessageData string
  | NullData

record response =
  status :: nat
  data :: body
  timestamp :: instant

type_synonym outcome = "store \<times> (error + response)"

subsection \<open>AuthController\<close>

definition register :: "env \<Rightarrow> instant \<Rightarrow> store \<Rightarrow> string \<Rightarrow> string \<Rightarrow> string \<Rightarrow> outcome" where
  "register e now s em pw nm =
     (case user_findUnique s em of
        Some existingUser \<Rightarrow> (s, Inl (AppError ''User with this email already exists'' 409))
      | None \<Rightarrow>
          (case user_create s em (bcrypt_hash pw) nm of
             Inl err \<Rightarrow> (s, Inl err)
           | Inr (s1, u) \<Rightarrow>
               (case generateTokens e now (id' u) of
                  Inl err \<Rightarrow> (s1, Inl err)
                | Inr (accessToken, refreshToken) \<Rightarrow>
                    (refreshToken_create s1 refreshToken (id' u)
                       (now + 7 * 24 * 60 * 60 * 1000) now,
                     Inr \<lparr>status = 201,
                          data = AuthData (formatUserResponse u) accessToken refreshToken,
                          timestamp = now\<rparr>))))"

text \<open>
  \<^verbatim>\<open>login\<close>, in the steps between its awaits: the user lookup and password check,
  then \<^verbatim>\<open>refreshToken.deleteMany\<close>, \<^verbatim>\<open>refreshToken.create\<close> and \<^verbatim>\<open>user.update\<close>,
  three separate database calls.
\<close>

definition login_check :: "store \<Rightarrow> string \<Rightarrow> string \<Rightarrow> error + user" where
  "login_check s em pw =
     (case user_findUnique s em of
        None \<Rightarrow> Inl (AppError ''Invalid email or password'' 401)
      | Some u \<Rightarrow>
          if \<not> bcrypt_compare pw (password u) then Inl (AppError ''Invalid email or password'' 401)
          else Inr u)"

definition login :: "env \<Rightarrow> instant \<Rightarrow> store \<Rightarrow> string \<Rightarrow> string \<Rightarrow> outcome" where
  "login e now s em pw =
     (case login_check s em pw of
        Inl err \<Rightarrow> (s, Inl err)
      | Inr u \<Rightarrow>
          (case generateTokens e now (id' u) of
             Inl err \<Rightarrow> (s, Inl err)
           | Inr (accessToken, refreshToken) \<Rightarrow>
               (let s1 = refreshToken_deleteMany s (id' u);
                    s2 = refreshToken_create s1 refreshToken (id' u)
                           (now + 7 * 24 * 60 * 60 * 1000) now;
                    s3 = user_update_lastLoginAt s2 (id' u) now
                in (s3, Inr \<lparr>status = 200,
                             data = AuthData (formatUserResponse u) accessToken refreshToken,
                             timestamp = now\<rparr>))))"

text \<open>
  \<^verbatim>\<open>refreshToken\<close>, in two steps: \<open>refresh_check\<close> verifies the credential and reads
  the stored row (\<^verbatim>\<open>findFirst\<close>); \<open>refresh_rotate\<close> signs the new pair and writes it
  with \<^verbatim>\<open>update({where: {id: storedToken.id}, ..})\<close>.
\<close>

definition refresh_check :: "env \<Rightarrow> instant \<Rightarrow> store \<Rightarrow> jwt \<Rightarrow> error + token_payload \<times> refresh_token" where
  "refresh_check e now s tok =
     (case verifyRefreshToken e now tok of
        None \<Rightarrow> Inl (AppError ''Invalid refresh token'' 401)
      | Some payload \<Rightarrow>
          (case refreshToken_findFirst s tok (payload_userId payload) now of
             None \<Rightarrow> Inl (AppError ''Invalid refresh token'' 401)
           | Some storedToken \<Rightarrow> Inr (payload, storedToken)))"

definition refresh_rotate :: "env \<Rightarrow> instant \<Rightarrow> store \<Rightarrow> token_payload \<Rightarrow> refresh_token \<Rightarrow> outcome" where
  "refresh_rotate e now s payload storedToken =
     (case generateTokens e now (payload_userId payload) of
        Inl err \<Rightarrow> (s, Inl err)
      | Inr (accessToken, newRefreshToken) \<Rightarrow>
          (case refreshToken_update s (id' storedToken) newRefreshToken
                  (now + 7 * 24 * 60 * 60 * 1000) of
             Inl err \<Rightarrow> (s, Inl err)
           | Inr s1 \<Rightarrow>
               (s1, Inr \<lparr>status = 200, data = TokenData accessToken newRefreshToken,
                         timestamp = now\<rparr>)))"

definition refreshToken :: "env \<Rightarrow> instant \<Rightarrow> store \<Rightarrow> jwt \<Rightarrow> outcome" where
  "refreshToken e now s tok =
     (case refresh_check e now s tok of
        Inl err \<Rightarrow> (s, Inl err)
      | Inr (payload, storedToken) \<Rightarrow> refresh_rotate e now s payload storedToken)"

text \<open>\<^verbatim>\<open>logout\<close>: \<^verbatim>\<open>req.user?.id\<close> is the identifier \<^verbatim>\<open>authenticate\<close> attached, if any.\<close>

definition logout :: "instant \<Rightarrow> store \<Rightarrow> ident option \<Rightarrow> outcome" where
  "logout now s uid =
     ((case uid of None \<Rightarrow> s | Some u \<Rightarrow> refreshToken_deleteMany s u),
      Inr \<lparr>status = 200, data = NullData, timestamp = now\<rparr>)"

definition forgotPassword :: "env \<Rightarrow> instant \<Rightarrow> store \<Rightarrow> string \<Rightarrow> outcome" where
  "forgotPassword e now s em =
     (case user_findUnique s em of
        None \<Rightarrow>
          (s, Inr \<lparr>status = 200,
                   data = MessageData ''If the email exists, a reset link has been sent.'',
                   timestamp = now\<rparr>)
      | Some u \<Rightarrow>
          (case jwt_sign (id' u) ''password-reset'' (JWT_SECRET e) (Millis (60 * 60 * 1000)) now of
             Inl err \<Rightarrow> (s, Inl err)
           | Inr resetToken \<Rightarrow>
               (passwordReset_create s resetToken (id' u) (now + 60 * 60 * 1000),
                Inr \<lparr>status = 200,
                     data = MessageData ''If the email exists, a reset link has been sent.'',
                     timestamp = now\<rparr>)))"

text \<open>
  \<^verbatim>\<open>resetPassword\<close>, in two steps: \<open>reset_check\<close> verifies the credential and reads
  the stored row (\<^verbatim>\<open>findFirst\<close>, outside the transaction); \<open>reset_commit\<close> hashes the
  new password and runs the transaction.
\<close>

definition reset_check :: "env \<Rightarrow> instant \<Rightarrow> store \<Rightarrow> jwt \<Rightarrow> error + token_payload \<times> password_reset" where
  "reset_check e now s tok =
     (case jwt_verify tok (JWT_SECRET e) now of
        Inl _ \<Rightarrow> Inl (AppError ''Invalid or expired reset token'' 400)
      | Inr payload \<Rightarrow>
          if payload_type payload \<noteq> ''password-reset'' then Inl (AppError ''Invalid reset token'' 400)
          else (case passwordReset_findFirst s tok (payload_userId payload) now of
                  None \<Rightarrow> Inl (AppError ''Invalid or expired reset token'' 400)
                | Some resetToken \<Rightarrow> Inr (payload, resetToken)))"

definition reset_commit :: "instant \<Rightarrow> store \<Rightarrow> token_payload \<Rightarrow> password_reset \<Rightarrow> string \<Rightarrow> outcome" where
  "reset_commit now s payload resetToken pw =
     (case reset_transaction s (payload_userId payload) (bcrypt_hash pw) (id' resetToken) of
        Inl err \<Rightarrow> (s, Inl err)
      | Inr s1 \<Rightarrow>
          (s1, Inr \<lparr>status = 200, data = MessageData ''Password has been reset successfully.'',
                    timestamp = now\<rparr>))"

definition resetPassword :: "env \<Rightarrow> instant \<Rightarrow> store \<Rightarrow> jwt \<Rightarrow> string \<Rightarrow> outcome" where
  "resetPassword e now s tok pw =
     (case reset_check e now s tok of
        Inl err \<Rightarrow> (s, Inl err)
      | Inr (payload, resetToken) \<Rightarrow> reset_commit now s payload resetToken pw)"

subsection \<open>Vocabulary of the statements\<close>

text \<open>
  What a token carries, read without verifying it (the library's \<^verbatim>\<open>jwt.decode\<close>), the
  key its signature was made with, and whether its own expiry has passed at a given time.
\<close>

definition jwt_decode :: "jwt \<Rightarrow> token_payload option" where
  "jwt_decode tok = (case tok of Jwt payload key \<Rightarrow> Some payload | NotAJwt _ \<Rightarrow> None)"

definition signing_key :: "jwt \<Rightarrow> string option" where
  "signing_key tok = (case tok of Jwt payload key \<Rightarrow> Some key | NotAJwt _ \<Rightarrow> None)"

definition expired :: "instant \<Rightarrow> jwt \<Rightarrow> bool" where
  "expired now tok =
     (case tok of Jwt payload key \<Rightarrow> now div 1000 \<ge> payload_exp payload | NotAJwt _ \<Rightarrow> False)"

text \<open>The lifetime \<^verbatim>\<open>generateTokens\<close> signs into a refresh credential.\<close>

definition refresh_lifetime :: "env \<Rightarrow> timespan" where
  "refresh_lifetime e =
     (case JWT_REFRESH_EXPIRES_IN e of None \<Rightarrow> Millis (7 * 24 * 60 * 60 * 1000) | Some t \<Rightarrow> t)"

text \<open>
  A refresh row written at \<open>now\<close> under configuration \<open>e\<close>: its stored expiry is seven
  days after \<open>now\<close>, the expiry signed into its token is the configured lifetime after
  \<open>now\<close>, and the two differ, in whole seconds, by seven days minus that lifetime.
\<close>

definition expiry_written :: "env \<Rightarrow> instant \<Rightarrow> refresh_token \<Rightarrow> bool" where
  "expiry_written e now r =
     (expiresAt r = now + 7 * 24 * 60 * 60 * 1000 \<and>
      (case (jwt_decode (token r), refresh_lifetime e) of
         (Some payload, Millis m) \<Rightarrow>
           payload_exp payload = now div 1000 + m div 1000 \<and>
           expiresAt r div 1000 - payload_exp payload = 7 * 24 * 60 * 60 - m div 1000
       | _ \<Rightarrow> False))"

text \<open>
  At most one refresh row per principal; every refresh row belongs to a user row (the
  foreign key of \<^verbatim>\<open>userId\<close>); both together.
\<close>

definition one_record_per_principal :: "store \<Rightarrow> bool" where
  "one_record_per_principal s = distinct (map userId (refreshTokens s))"

definition owners_exist :: "store \<Rightarrow> bool" where
  "owners_exist s = list_all (\<lambda>r. userId r \<in> set (map id' (users s))) (refreshTokens s)"

definition session_invariant :: "store \<Rightarrow> bool" where
  "session_invariant s = (one_record_per_principal s \<and> owners_exist s)"

text \<open>
  The database after both writes of the transaction of \<^verbatim>\<open>resetPassword\<close>, and the two
  constant responses of the reset flow.
\<close>

definition reset_written :: "store \<Rightarrow> ident \<Rightarrow> string \<Rightarrow> ident \<Rightarrow> store" where
  "reset_written s uid pw resetId =
     s\<lparr>users := map (\<lambda>u. if id' u = uid \<and> deletedAt u = None
                           then u\<lparr>password := bcrypt_hash pw\<rparr> else u) (users s),
       passwordResets := map (\<lambda>x. if id' x = resetId then x\<lparr>used := True\<rparr> else x)
                             (passwordResets s)\<rparr>"

definition reset_done :: "instant \<Rightarrow> response" where
  "reset_done now = \<lparr>status = 200, data = MessageData ''Password has been reset successfully.'',
                     timestamp = now\<rparr>"

definition reset_requested :: "instant \<Rightarrow> response" where
  "reset_requested now =
     \<lparr>status = 200, data = MessageData ''If the email exists, a reset link has been sent.'',
      timestamp = now\<rparr>"

subsection \<open>A concrete deployment\<close>

text \<open>
  One user with a live refresh row and an unused reset row, both issued at time 0 under
  the default lifetimes; the tokens the example configuration signs for that user in
  second \<open>n\<close>.
\<close>

definition ex_env :: env where
  "ex_env = \<lparr>JWT_SECRET = Some ''ka'', JWT_REFRESH_SECRET = Some ''kr'',
             JWT_EXPIRES_IN = None, JWT_REFRESH_EXPIRES_IN = None\<rparr>"

definition ex_user :: user where
  "ex_user = \<lparr>id' = 1, email = ''a@x.com'', password = Bcrypt ''pw'', name = ''Ann'',
              lastLoginAt = None, deletedAt = None\<rparr>"

definition ex_access_at :: "int \<Rightarrow> jwt" where
  "ex_access_at n = Jwt \<lparr>payload_userId = 1, payload_type = ''access'', payload_iat = n,
                          payload_exp = n + 900\<rparr> ''ka''"

definition ex_refresh_at :: "int \<Rightarrow> jwt" where
  "ex_refresh_at n = Jwt \<lparr>payload_userId = 1, payload_type = ''refresh'', payload_iat = n,
                           payload_exp = n + 604800\<rparr> ''kr''"

definition ex_reset_at :: "int \<Rightarrow> jwt" where
  "ex_reset_at n = Jwt \<lparr>payload_userId = 1, payload_type = ''password-reset'', payload_iat = n,
                         payload_exp = n + 3600\<rparr> ''ka''"

definition ex_refresh_payload :: token_payload where
  "ex_refresh_payload = \<lparr>payload_userId = 1, payload_type = ''refresh'', payload_iat = 0,
                          payload_exp = 604800\<rparr>"

definition ex_reset_payload :: token_payload where
  "ex_reset_payload = \<lparr>payload_userId = 1, payload_type = ''password-reset'', payload_iat = 0,
                        payload_exp = 3600\<rparr>"

definition ex_refresh_row :: refresh_token where
  "ex_refresh_row = \<lparr>id' = 1, token = ex_refresh_at 0, userId = 1, expiresAt = 604800000,
                     createdAt = 0\<rparr>"

definition ex_reset_row :: password_reset where
  "ex_reset_row = \<lparr>id' = 1, token = ex_reset_at 0, userId = 1, expiresAt = 3600000,
                   used = False\<rparr>"

definition ex_store :: store where
  "ex_store = \<lparr>users = [ex_user], refreshTokens = [ex_refresh_row],
               passwordResets = [ex_reset_row]\<rparr>"

definition ex_empty :: store where
  "ex_empty = \<lparr>users = [], refreshTokens = [], passwordResets = []\<rparr>"

text \<open>
  A database in which user 1 has two refresh rows (as a race could have left them) and a
  second user has one.
\<close>

definition ex_other :: user where
  "ex_other = \<lparr>id' = 2, email = ''c@x.com'', password = Bcrypt ''pw2'', name = ''Cy'',
               lastLoginAt = None, deletedAt = None\<rparr>"

definition ex_other_row :: refresh_token where
  "ex_other_row =
     \<lparr>id' = 3,
      token = Jwt \<lparr>payload_userId = 2, payload_type = ''refresh'', payload_iat = 2,
                   payload_exp = 604802\<rparr> ''kr'',
      userId = 2, expiresAt = 604802000, createdAt = 2000\<rparr>"

definition ex_store_dup :: store where
  "ex_store_dup =
     \<lparr>users = [ex_user, ex_other],
      refreshTokens =
        [ex_refresh_row,
         \<lparr>id' = 2, token = ex_refresh_at 1, userId = 1, expiresAt = 604801000,
          createdAt = 1000\<rparr>,
         ex_other_row],
      passwordResets = []\<rparr>"

text \<open>
  Two logins of user 1 on the example deployment, one at time 5000 and one at 6000,
  with their database calls interleaved: both \<^verbatim>\<open>deleteMany\<close>, then both
  \<^verbatim>\<open>create\<close>, then both \<^verbatim>\<open>user.update\<close>.
\<close>

definition ex_interleaved_logins :: store where
  "ex_interleaved_logins =
     user_update_lastLoginAt
       (user_update_lastLoginAt
          (refreshToken_create
             (refreshToken_create
                (refreshToken_deleteMany (refreshToken_deleteMany ex_store 1) 1)
                (ex_refresh_at 5) 1 (5000 + 7 * 24 * 60 * 60 * 1000) 5000)
             (ex_refresh_at 6) 1 (6000 + 7 * 24 * 60 * 60 * 1000) 6000)
          1 5000)
       1 6000"




text \<open>
  The same configuration with the refresh lifetime set to one day, and the refresh token
  it signs for user 1 in second 5.
\<close>

definition ex_env_1d :: env where
  "ex_env_1d = ex_env\<lparr>JWT_REFRESH_EXPIRES_IN := Some (Millis (24 * 60 * 60 * 1000))\<rparr>"

definition ex_refresh_1d :: jwt where
  "ex_refresh_1d = Jwt \<lparr>payload_userId = 1, payload_type = ''refresh'', payload_iat = 5,
                        payload_exp = 86405\<rparr> ''kr''"

section \<open>Properties\<close>

subsection \<open>Lists and fresh identifiers\<close>

lemma find_Some_set: "find P xs = Some x \<Longrightarrow> x \<in> set xs \<and> P x"
  by (induction xs) (auto split: if_splits)


lemma find_append_ex: "P x \<Longrightarrow> \<exists>y. find P (xs @ [x]) = Some y \<and> P y"
  by (induction xs) auto

lemma bex_id_iff: "(\<exists>x\<in>set xs. id' x = i) = (i \<in> set (map id' xs))"
  by auto

lemma fold_max_ge: "(a::nat) \<le> fold max xs a"
  by (induction xs arbitrary: a) (auto intro: order_trans[OF max.cobounded2])

lemma fold_max_mem: "x \<in> set xs \<Longrightarrow> (x::nat) \<le> fold max xs a"
proof (induction xs arbitrary: a)
  case Nil
  then show ?case by simp
next
  case (Cons y ys)
  show ?case
  proof (cases "x = y")
    case True
    have "y \<le> max y a" by simp
    also have "\<dots> \<le> fold max ys (max y a)" by (rule fold_max_ge)
    finally show ?thesis using True by simp
  next
    case False
    with Cons show ?thesis by simp
  qed
qed

lemma fresh_id_fresh: "fresh_id ids \<notin> set ids"
proof
  assume "fresh_id ids \<in> set ids"
  from fold_max_mem[OF this, of 0] show False by (simp add: fresh_id_def)
qed

subsection \<open>Signing and verification\<close>

lemma jwt_sign_Inr:
  "jwt_sign uid ty secret ttl now = Inr tok \<Longrightarrow>
     \<exists>k m. secret = Some k \<and> k \<noteq> [] \<and> ttl = Millis m \<and>
       tok = Jwt \<lparr>payload_userId = uid, payload_type = ty, payload_iat = now div 1000,
                  payload_exp = now div 1000 + m div 1000\<rparr> k"
  by (auto simp: jwt_sign_def split: option.splits if_splits timespan.splits)

lemma jwt_verify_Inr:
  "jwt_verify tok secret now = Inr p \<Longrightarrow>
     \<exists>k. secret = Some k \<and> k \<noteq> [] \<and> tok = Jwt p k \<and> now div 1000 < payload_exp p"
  by (auto simp: jwt_verify_def split: option.splits if_splits jwt.splits)

lemma sign_verify:
  assumes "jwt_sign uid ty secret ttl now = Inr tok" and "\<not> expired now' tok"
  shows "\<exists>p. jwt_verify tok secret now' = Inr p \<and> payload_userId p = uid \<and> payload_type p = ty"
  using jwt_sign_Inr[OF assms(1)] assms(2)
  by (auto simp: jwt_verify_def expired_def)

lemma signing_key_sign: "jwt_sign uid ty secret ttl now = Inr tok \<Longrightarrow> signing_key tok = secret"
  by (auto simp: signing_key_def dest: jwt_sign_Inr)

lemma generateTokens_Inr:
  "generateTokens e now uid = Inr (a, r) \<Longrightarrow>
     jwt_sign uid ''access'' (JWT_SECRET e)
        (case JWT_EXPIRES_IN e of None \<Rightarrow> Millis (15 * 60 * 1000) | Some t \<Rightarrow> t) now = Inr a \<and>
     jwt_sign uid ''refresh'' (JWT_REFRESH_SECRET e) (refresh_lifetime e) now = Inr r"
  by (auto simp: generateTokens_def refresh_lifetime_def split: sum.splits)

lemma generateTokens_Inl: "generateTokens e now uid = Inl err \<Longrightarrow> err = SignError"
  by (auto simp: generateTokens_def jwt_sign_def
           split: sum.splits option.splits if_splits timespan.splits)

lemma refresh_sign_Inr:
  assumes "generateTokens e now uid = Inr (a, r)"
  shows "\<exists>m k. refresh_lifetime e = Millis m \<and>
           r = Jwt \<lparr>payload_userId = uid, payload_type = ''refresh'', payload_iat = now div 1000,
                    payload_exp = now div 1000 + m div 1000\<rparr> k"
  using jwt_sign_Inr[OF generateTokens_Inr[OF assms, THEN conjunct2]] by auto

lemma fresh_refresh_not_expired:
  assumes "generateTokens e now uid = Inr (a, r)" and "refresh_lifetime e = Millis m"
      and "1000 \<le> m"
  shows "\<not> expired now r"
proof -
  from refresh_sign_Inr[OF assms(1)] assms(2) obtain k where
    r: "r = Jwt \<lparr>payload_userId = uid, payload_type = ''refresh'', payload_iat = now div 1000,
                  payload_exp = now div 1000 + m div 1000\<rparr> k" by auto
  from assms(3) have "1 \<le> m div 1000" by simp
  then show ?thesis by (simp add: r expired_def)
qed

lemma expiry_written_row:
  assumes "generateTokens e now uid = Inr (a, r)"
  shows "expiry_written e now (x\<lparr>token := r, expiresAt := now + 7 * 24 * 60 * 60 * 1000\<rparr>)"
proof -
  from refresh_sign_Inr[OF assms] obtain m k where
    m: "refresh_lifetime e = Millis m" and
    r: "r = Jwt \<lparr>payload_userId = uid, payload_type = ''refresh'', payload_iat = now div 1000,
                  payload_exp = now div 1000 + m div 1000\<rparr> k" by blast
  have "(now + 604800000) div 1000 = now div 1000 + 604800" by simp
  then show ?thesis by (simp add: expiry_written_def m r jwt_decode_def)
qed

subsection \<open>The steps of \<open>refreshToken\<close>\<close>

lemma refresh_check_Inr:
  "refresh_check e now s tok = Inr (p, r) \<Longrightarrow>
     verifyRefreshToken e now tok = Some p \<and> r \<in> set (refreshTokens s) \<and> token r = tok \<and>
     userId r = payload_userId p \<and> expiresAt r > now"
  by (auto simp: refresh_check_def refreshToken_findFirst_def
           split: option.splits dest: find_Some_set)

lemma refresh_check_Inl:
  "refresh_check e now s tok = Inl err \<Longrightarrow> err = AppError ''Invalid refresh token'' 401"
  by (auto simp: refresh_check_def split: option.splits)

lemma refresh_rotate_found:
  assumes "generateTokens e now (payload_userId p) = Inr (a, nr)"
      and "\<exists>x\<in>set (refreshTokens s). id' x = id' r"
  shows "refresh_rotate e now s p r =
           (s\<lparr>refreshTokens :=
                 map (\<lambda>x. if id' x = id' r
                          then x\<lparr>token := nr, expiresAt := now + 7 * 24 * 60 * 60 * 1000\<rparr>
                          else x) (refreshTokens s)\<rparr>,
            Inr \<lparr>status = 200, data = TokenData a nr, timestamp = now\<rparr>)"
  using assms by (simp add: refresh_rotate_def refreshToken_update_def)

lemma refresh_rotate_missing:
  assumes "generateTokens e now (payload_userId p) = Inr (a, nr)"
      and "\<forall>x\<in>set (refreshTokens s). id' x \<noteq> id' r"
  shows "refresh_rotate e now s p r = (s, Inl (PrismaError ''P2025''))"
  using assms by (simp add: refresh_rotate_def refreshToken_update_def)

lemma ids_after_update:
  "map id' (map (\<lambda>x::refresh_token. if id' x = i then x\<lparr>token := t, expiresAt := e\<rparr> else x) xs) =
   map id' xs"
  by (induction xs) auto

lemma map_update_twice:
  "map (\<lambda>x. if id' x = i then x\<lparr>token := t2, expiresAt := e2\<rparr> else x)
       (map (\<lambda>x::refresh_token. if id' x = i then x\<lparr>token := t1, expiresAt := e1\<rparr> else x) xs) =
   map (\<lambda>x. if id' x = i then x\<lparr>token := t2, expiresAt := e2\<rparr> else x) xs"
  by (induction xs) auto

lemma refreshToken_Inr:
  assumes "refreshToken e now s tok = (s', Inr resp)"
  shows "\<exists>p r a nr.
           refresh_check e now s tok = Inr (p, r) \<and>
           generateTokens e now (payload_userId p) = Inr (a, nr) \<and>
           resp = \<lparr>status = 200, data = TokenData a nr, timestamp = now\<rparr> \<and>
           s' = s\<lparr>refreshTokens :=
                   map (\<lambda>x. if id' x = id' r
                            then x\<lparr>token := nr, expiresAt := now + 7 * 24 * 60 * 60 * 1000\<rparr>
                            else x) (refreshTokens s)\<rparr>"
proof -
  from assms obtain p r where chk: "refresh_check e now s tok = Inr (p, r)"
    and rot: "refresh_rotate e now s p r = (s', Inr resp)"
    by (auto simp: refreshToken_def split: sum.splits)
  from refresh_check_Inr[OF chk] have ex: "\<exists>x\<in>set (refreshTokens s). id' x = id' r" by blast
  from rot obtain a nr where g: "generateTokens e now (payload_userId p) = Inr (a, nr)"
    by (auto simp: refresh_rotate_def split: sum.splits)
  from refresh_rotate_found[OF g ex] rot chk g show ?thesis by auto
qed

lemma refreshToken_Inl:
  assumes "refreshToken e now s tok = (s', Inl err)"
  shows "s' = s \<and>
         (err = AppError ''Invalid refresh token'' 401 \<and> refresh_check e now s tok = Inl err \<or>
          err = SignError \<and> (\<exists>p r. refresh_check e now s tok = Inr (p, r) \<and>
                                    generateTokens e now (payload_userId p) = Inl SignError))"
proof (cases "refresh_check e now s tok")
  case (Inl a)
  with assms refresh_check_Inl[OF Inl] show ?thesis by (simp add: refreshToken_def)
next
  case (Inr pr)
  obtain p r where pr: "pr = (p, r)" by (cases pr)
  from refresh_check_Inr[OF Inr[unfolded pr]]
  have ex: "\<exists>x\<in>set (refreshTokens s). id' x = id' r" by blast
  show ?thesis
  proof (cases "generateTokens e now (payload_userId p)")
    case (Inl a)
    from generateTokens_Inl[OF Inl] Inl assms Inr pr show ?thesis
      by (simp add: refreshToken_def refresh_rotate_def)
  next
    case (Inr ar)
    obtain a nr where ar: "ar = (a, nr)" by (cases ar)
    from refresh_rotate_found[OF Inr[unfolded ar] ex] assms
         \<open>refresh_check e now s tok = Inr pr\<close> pr
    show ?thesis by (simp add: refreshToken_def)
  qed
qed

subsection \<open>\<open>register\<close> and \<open>login\<close>\<close>

lemma user_create_Inr:
  "user_create s em h nm = Inr (s1, u) \<Longrightarrow>
     id' u = fresh_id (map id' (users s)) \<and> users s1 = users s @ [u] \<and>
     refreshTokens s1 = refreshTokens s \<and> passwordResets s1 = passwordResets s"
  by (auto simp: user_create_def Let_def split: if_splits)

lemma register_Inr:
  assumes "register e now s em pw nm = (s', Inr resp)"
  shows "\<exists>s1 u a r. user_findUnique s em = None \<and>
           user_create s em (bcrypt_hash pw) nm = Inr (s1, u) \<and>
           generateTokens e now (id' u) = Inr (a, r) \<and>
           s' = refreshToken_create s1 r (id' u) (now + 7 * 24 * 60 * 60 * 1000) now \<and>
           resp = \<lparr>status = 201, data = AuthData (formatUserResponse u) a r, timestamp = now\<rparr>"
  using assms by (auto simp: register_def split: option.splits sum.splits)

lemma register_Inl:
  assumes "register e now s em pw nm = (s', Inl err)"
  shows "refreshTokens s' = refreshTokens s \<and> passwordResets s' = passwordResets s \<and>
         (users s' = users s \<or> (\<exists>u. users s' = users s @ [u]))"
  using assms user_create_Inr
  by (fastforce simp: register_def split: option.splits sum.splits prod.splits)

lemma register_tokens:
  assumes "register e now s em pw nm = (s', Inr resp)"
  shows "\<exists>u a r x. users s' = users s @ [u] \<and> id' u = fresh_id (map id' (users s)) \<and>
           generateTokens e now (id' u) = Inr (a, r) \<and>
           userId x = id' u \<and> token x = r \<and> expiresAt x = now + 7 * 24 * 60 * 60 * 1000 \<and>
           refreshTokens s' = refreshTokens s @ [x] \<and> passwordResets s' = passwordResets s"
proof -
  from register_Inr[OF assms] obtain s1 u a r where
    c: "user_create s em (bcrypt_hash pw) nm = Inr (s1, u)" and
    g: "generateTokens e now (id' u) = Inr (a, r)" and
    s': "s' = refreshToken_create s1 r (id' u) (now + 7 * 24 * 60 * 60 * 1000) now" by blast
  from user_create_Inr[OF c] g show ?thesis
    by (simp add: s' refreshToken_create_def)
qed

lemma login_check_Inr:
  "login_check s em pw = Inr u \<Longrightarrow>
     u \<in> set (users s) \<and> email u = em \<and> deletedAt u = None \<and> password u = Bcrypt pw"
  by (auto simp: login_check_def user_findUnique_def bcrypt_compare_def
           split: option.splits if_splits dest: find_Some_set)

lemma login_Inr:
  assumes "login e now s em pw = (s', Inr resp)"
  shows "\<exists>u a r. login_check s em pw = Inr u \<and> generateTokens e now (id' u) = Inr (a, r) \<and>
           s' = user_update_lastLoginAt
                  (refreshToken_create (refreshToken_deleteMany s (id' u)) r (id' u)
                     (now + 7 * 24 * 60 * 60 * 1000) now) (id' u) now \<and>
           resp = \<lparr>status = 200, data = AuthData (formatUserResponse u) a r, timestamp = now\<rparr>"
  using assms by (auto simp: login_def Let_def split: sum.splits)

lemma login_Inl: "login e now s em pw = (s', Inl err) \<Longrightarrow> s' = s"
  by (auto simp: login_def Let_def split: sum.splits)

lemma ids_after_lastLogin:
  "map id' (users (user_update_lastLoginAt s uid t)) = map id' (users s)"
  by (simp add: user_update_lastLoginAt_def comp_def if_distrib[of id'] cong: if_cong)

lemma ids_after_password:
  "map id' (users (user_update_password s uid h)) = map id' (users s)"
  by (simp add: user_update_password_def comp_def if_distrib[of id'] cong: if_cong)

lemma login_tokens:
  assumes "login e now s em pw = (s', Inr resp)"
  shows "\<exists>u a r x. login_check s em pw = Inr u \<and> generateTokens e now (id' u) = Inr (a, r) \<and>
           userId x = id' u \<and> token x = r \<and> expiresAt x = now + 7 * 24 * 60 * 60 * 1000 \<and>
           refreshTokens s' = filter (\<lambda>y. userId y \<noteq> id' u) (refreshTokens s) @ [x] \<and>
           map id' (users s') = map id' (users s) \<and> passwordResets s' = passwordResets s"
proof -
  from login_Inr[OF assms] obtain u a r where
    c: "login_check s em pw = Inr u" and g: "generateTokens e now (id' u) = Inr (a, r)" and
    s': "s' = user_update_lastLoginAt
                  (refreshToken_create (refreshToken_deleteMany s (id' u)) r (id' u)
                     (now + 7 * 24 * 60 * 60 * 1000) now) (id' u) now" by blast
  let ?x = "\<lparr>id' = fresh_id (map id' (filter (\<lambda>y. userId y \<noteq> id' u) (refreshTokens s))),
             token = r, userId = id' u,
             expiresAt = now + 7 * 24 * 60 * 60 * 1000, createdAt = now\<rparr>"
  have "refreshTokens s' = filter (\<lambda>y. userId y \<noteq> id' u) (refreshTokens s) @ [?x]"
    by (simp add: s' refreshToken_create_def refreshToken_deleteMany_def
                  user_update_lastLoginAt_def)
  moreover have "map id' (users s') = map id' (users s)"
    unfolding s' ids_after_lastLogin
    by (simp add: refreshToken_create_def refreshToken_deleteMany_def)
  moreover have "passwordResets s' = passwordResets s"
    by (simp add: s' refreshToken_create_def refreshToken_deleteMany_def
                  user_update_lastLoginAt_def)
  moreover have "userId ?x = id' u \<and> token ?x = r \<and>
                 expiresAt ?x = now + 7 * 24 * 60 * 60 * 1000" by simp
  ultimately show ?thesis using c g by blast
qed

subsection \<open>The session invariant in sequential runs\<close>

lemma owners_exist_iff:
  "owners_exist s = (\<forall>r\<in>set (refreshTokens s). userId r \<in> set (map id' (users s)))"
  by (simp add: owners_exist_def list_all_iff)

lemma owners_exist_subset:
  "owners_exist s = (set (map userId (refreshTokens s)) \<subseteq> set (map id' (users s)))"
  by (auto simp: owners_exist_iff)

lemma fresh_owner:
  assumes "owners_exist s"
  shows "fresh_id (map id' (users s)) \<notin> set (map userId (refreshTokens s))"
proof
  assume "fresh_id (map id' (users s)) \<in> set (map userId (refreshTokens s))"
  with assms have "fresh_id (map id' (users s)) \<in> set (map id' (users s))"
    by (auto simp: owners_exist_iff)
  with fresh_id_fresh show False by blast
qed

lemma invariant_register:
  assumes "session_invariant s"
  shows "session_invariant (fst (register e now s em pw nm))"
proof (cases "register e now s em pw nm")
  case (Pair s' out)
  from assms have d: "distinct (map userId (refreshTokens s))" and o: "owners_exist s"
    by (simp_all add: session_invariant_def one_record_per_principal_def)
  show ?thesis
  proof (cases out)
    case (Inl err)
    from register_Inl[OF Pair[unfolded Inl]] d o show ?thesis
      by (auto simp: Pair session_invariant_def one_record_per_principal_def owners_exist_iff)
  next
    case (Inr resp)
    from register_tokens[OF Pair[unfolded Inr]] obtain u x where
      u: "users s' = users s @ [u]" "id' u = fresh_id (map id' (users s))"
      and x: "userId x = id' u" "refreshTokens s' = refreshTokens s @ [x]" by blast
    from fresh_owner[OF o] have "id' u \<notin> set (map userId (refreshTokens s))" by (simp add: u)
    with d have "distinct (map userId (refreshTokens s'))" by (simp add: x)
    moreover from o have "owners_exist s'"
      by (auto simp: owners_exist_iff x u)
    ultimately show ?thesis
      by (simp add: Pair session_invariant_def one_record_per_principal_def)
  qed
qed

lemma invariant_login:
  assumes "session_invariant s"
  shows "session_invariant (fst (login e now s em pw))"
proof (cases "login e now s em pw")
  case (Pair s' out)
  from assms have d: "distinct (map userId (refreshTokens s))" and o: "owners_exist s"
    by (simp_all add: session_invariant_def one_record_per_principal_def)
  show ?thesis
  proof (cases out)
    case (Inl err)
    from login_Inl[OF Pair[unfolded Inl]] assms show ?thesis by (simp add: Pair)
  next
    case (Inr resp)
    from login_tokens[OF Pair[unfolded Inr]] obtain u x where
      c: "login_check s em pw = Inr u" and x: "userId x = id' u"
      "refreshTokens s' = filter (\<lambda>y. userId y \<noteq> id' u) (refreshTokens s) @ [x]"
      and us: "map id' (users s') = map id' (users s)" by blast
    from d have "distinct (map userId (refreshTokens s'))"
      by (auto simp: x distinct_map_filter)
    moreover from login_check_Inr[OF c] have "id' u \<in> set (map id' (users s))" by auto
    with o have "owners_exist s'"
      unfolding owners_exist_iff us by (auto simp: x)
    ultimately show ?thesis
      by (simp add: Pair session_invariant_def one_record_per_principal_def)
  qed
qed

lemma invariant_refreshToken:
  assumes "session_invariant s"
  shows "session_invariant (fst (refreshToken e now s tok))"
proof (cases "refreshToken e now s tok")
  case (Pair s' out)
  show ?thesis
  proof (cases out)
    case (Inl err)
    from refreshToken_Inl[OF Pair[unfolded Inl]] assms show ?thesis by (simp add: Pair)
  next
    case (Inr resp)
    from refreshToken_Inr[OF Pair[unfolded Inr]] have
      m: "map userId (refreshTokens s') = map userId (refreshTokens s)" and u: "users s' = users s"
      by (auto simp: comp_def if_distrib[of userId] cong: if_cong)
    from assms show ?thesis
      unfolding Pair session_invariant_def one_record_per_principal_def owners_exist_subset
      by (simp add: m u del: set_map)
  qed
qed

lemma invariant_logout:
  assumes "session_invariant s"
  shows "session_invariant (fst (logout now s uid))"
  using assms
  by (cases uid)
     (auto simp: logout_def refreshToken_deleteMany_def session_invariant_def
                 one_record_per_principal_def owners_exist_iff distinct_map_filter)

lemma forgotPassword_frame:
  "refreshTokens (fst (forgotPassword e now s em)) = refreshTokens s \<and>
   users (fst (forgotPassword e now s em)) = users s"
  by (auto simp: forgotPassword_def passwordReset_create_def split: option.splits sum.splits)

lemma invariant_forgotPassword:
  assumes "session_invariant s"
  shows "session_invariant (fst (forgotPassword e now s em))"
  using assms forgotPassword_frame[of e now s em]
  by (simp add: session_invariant_def one_record_per_principal_def owners_exist_iff)

lemma resetPassword_frame:
  "refreshTokens (fst (resetPassword e now s tok pw)) = refreshTokens s \<and>
   map id' (users (fst (resetPassword e now s tok pw))) = map id' (users s)"
proof -
  have "refreshTokens (fst (reset_commit now s p r pw)) = refreshTokens s \<and>
        map id' (users (fst (reset_commit now s p r pw))) = map id' (users s)" for p r
    using ids_after_password[of s "payload_userId p" "bcrypt_hash pw"]
    by (auto simp: reset_commit_def reset_transaction_def passwordReset_update_used_def
                   user_update_password_def split: sum.splits if_splits)
  then show ?thesis
    by (auto simp: resetPassword_def split: sum.splits)
qed

lemma invariant_resetPassword:
  assumes "session_invariant s"
  shows "session_invariant (fst (resetPassword e now s tok pw))"
  using assms resetPassword_frame[of e now s tok pw]
  unfolding session_invariant_def one_record_per_principal_def owners_exist_subset
  by (simp del: set_map)

subsection \<open>The steps of \<open>resetPassword\<close>\<close>

lemma reset_check_Inr:
  "reset_check e now s tok = Inr (p, r) \<Longrightarrow>
     jwt_verify tok (JWT_SECRET e) now = Inr p \<and> payload_type p = ''password-reset'' \<and>
     passwordReset_findFirst s tok (payload_userId p) now = Some r \<and>
     r \<in> set (passwordResets s) \<and> token r = tok \<and> userId r = payload_userId p \<and>
     \<not> used r \<and> expiresAt r > now"
  by (auto simp: reset_check_def passwordReset_findFirst_def
           split: sum.splits option.splits if_splits dest: find_Some_set)

lemma reset_check_Inl:
  "reset_check e now s tok = Inl err \<Longrightarrow>
     err = AppError ''Invalid or expired reset token'' 400 \<or>
     err = AppError ''Invalid reset token'' 400 \<and>
     (\<exists>p. jwt_verify tok (JWT_SECRET e) now = Inr p \<and> payload_type p \<noteq> ''password-reset'')"
  by (auto simp: reset_check_def split: sum.splits option.splits if_splits)


lemma reset_commit_found:
  assumes "\<exists>x\<in>set (passwordResets s). id' x = id' r"
  shows "reset_commit now s p r pw =
           (reset_written s (payload_userId p) pw (id' r), Inr (reset_done now))"
  using assms
  by (simp add: reset_commit_def reset_transaction_def passwordReset_update_used_def
                user_update_password_def reset_written_def reset_done_def)

lemma reset_commit_missing:
  assumes "\<not> (\<exists>x\<in>set (passwordResets s). id' x = id' r)"
  shows "reset_commit now s p r pw = (s, Inl (PrismaError ''P2025''))"
  using assms
  by (simp add: reset_commit_def reset_transaction_def passwordReset_update_used_def
                user_update_password_def)

lemma resetPassword_Inr:
  assumes "resetPassword e now s tok pw = (s', Inr resp)"
  shows "\<exists>p r. reset_check e now s tok = Inr (p, r) \<and>
           s' = reset_written s (payload_userId p) pw (id' r) \<and> resp = reset_done now"
proof -
  from assms obtain p r where chk: "reset_check e now s tok = Inr (p, r)"
    and com: "reset_commit now s p r pw = (s', Inr resp)"
    by (auto simp: resetPassword_def split: sum.splits)
  from reset_check_Inr[OF chk] have "\<exists>x\<in>set (passwordResets s). id' x = id' r" by blast
  from reset_commit_found[OF this, of now p pw] com chk show ?thesis by simp
qed

lemma resetPassword_Inl:
  assumes "resetPassword e now s tok pw = (s', Inl err)"
  shows "s' = s \<and> reset_check e now s tok = Inl err"
proof (cases "reset_check e now s tok")
  case (Inl a)
  with assms show ?thesis by (simp add: resetPassword_def)
next
  case (Inr pr)
  obtain p r where pr: "pr = (p, r)" by (cases pr)
  from reset_check_Inr[OF Inr[unfolded pr]]
  have "\<exists>x\<in>set (passwordResets s). id' x = id' r" by blast
  from reset_commit_found[OF this, of now p pw] assms Inr pr show ?thesis
    by (simp add: resetPassword_def)
qed









lemma forgotPassword_snd:
  assumes "JWT_SECRET e = Some k" "k \<noteq> []"
  shows "snd (forgotPassword e now s em) = Inr (reset_requested now)"
  using assms
  by (auto simp: forgotPassword_def jwt_sign_def reset_requested_def split: option.splits)

section \<open>The claims\<close>

subsection \<open>C1: two refresh calls with one credential\<close>

text \<open>
  C1, as amended. The write of \<open>refreshToken\<close> is \<^verbatim>\<open>update({where: {id}})\<close>: it is
  keyed by the identifier of the row that \<open>refresh_check\<close> read and by nothing else.
  So when two calls have both read row \<open>r\<close> for the same credential before either
  writes, and signing succeeds for both, both writes succeed and both calls answer 200
  with their own pair; afterwards the rows with the identifier of \<open>r\<close> hold the token
  and expiry of the call that wrote last, and the table has the rows it had. The write
  fails only when no row has that identifier any more, and then with the database's
  \<^verbatim>\<open>P2025\<close>, not with \<^verbatim>\<open>Invalid refresh token\<close>.
\<close>

theorem refresh_update_keyed_by_id:
  assumes chk: "refresh_check e t s tok = Inr (p, r)"
      and gA: "generateTokens e tA (payload_userId p) = Inr (aA, rA)"
      and gB: "generateTokens e tB (payload_userId p) = Inr (aB, rB)"
  shows "\<exists>sA sB.
           refresh_rotate e tA s p r =
             (sA, Inr \<lparr>status = 200, data = TokenData aA rA, timestamp = tA\<rparr>) \<and>
           refresh_rotate e tB sA p r =
             (sB, Inr \<lparr>status = 200, data = TokenData aB rB, timestamp = tB\<rparr>) \<and>
           refreshTokens sB =
             map (\<lambda>x. if id' x = id' r
                      then x\<lparr>token := rB, expiresAt := tB + 7 * 24 * 60 * 60 * 1000\<rparr>
                      else x) (refreshTokens s) \<and>
           (\<forall>s0. (\<forall>x\<in>set (refreshTokens s0). id' x \<noteq> id' r) \<longrightarrow>
                 refresh_rotate e tB s0 p r = (s0, Inl (PrismaError ''P2025'')))"
proof -
  from refresh_check_Inr[OF chk] have ex: "\<exists>x\<in>set (refreshTokens s). id' x = id' r" by blast
  then have ex': "id' r \<in> set (map id' (refreshTokens s))" unfolding bex_id_iff .
  let ?sA = "s\<lparr>refreshTokens :=
                 map (\<lambda>x. if id' x = id' r
                          then x\<lparr>token := rA, expiresAt := tA + 7 * 24 * 60 * 60 * 1000\<rparr>
                          else x) (refreshTokens s)\<rparr>"
  have A: "refresh_rotate e tA s p r =
             (?sA, Inr \<lparr>status = 200, data = TokenData aA rA, timestamp = tA\<rparr>)"
    by (rule refresh_rotate_found[OF gA ex])
  from ex' have exA: "\<exists>x\<in>set (refreshTokens ?sA). id' x = id' r"
    unfolding bex_id_iff by (simp add: ids_after_update del: map_map set_map)
  let ?sB = "?sA\<lparr>refreshTokens :=
                 map (\<lambda>x. if id' x = id' r
                          then x\<lparr>token := rB, expiresAt := tB + 7 * 24 * 60 * 60 * 1000\<rparr>
                          else x) (refreshTokens ?sA)\<rparr>"
  have B: "refresh_rotate e tB ?sA p r =
             (?sB, Inr \<lparr>status = 200, data = TokenData aB rB, timestamp = tB\<rparr>)"
    by (rule refresh_rotate_found[OF gB exA])
  have C: "refreshTokens ?sB =
             map (\<lambda>x. if id' x = id' r
                      then x\<lparr>token := rB, expiresAt := tB + 7 * 24 * 60 * 60 * 1000\<rparr>
                      else x) (refreshTokens s)"
    by (simp add: map_update_twice del: map_map)
  have D: "\<forall>s0. (\<forall>x\<in>set (refreshTokens s0). id' x \<noteq> id' r) \<longrightarrow>
                 refresh_rotate e tB s0 p r = (s0, Inl (PrismaError ''P2025''))"
    using refresh_rotate_missing[OF gB] by blast
  from A B C D show ?thesis by blast
qed

text \<open>
  The example deployment: both calls read row 1 at time 5000, one writes at 6000, the
  other at 7000. Against a database without row 1 the write is \<^verbatim>\<open>P2025\<close>.
\<close>

theorem refresh_update_keyed_by_id_witness:
  "refresh_check ex_env 5000 ex_store (ex_refresh_at 0) =
     Inr (ex_refresh_payload, ex_refresh_row) \<and>
   generateTokens ex_env 6000 (payload_userId ex_refresh_payload) =
     Inr (ex_access_at 6, ex_refresh_at 6) \<and>
   generateTokens ex_env 7000 (payload_userId ex_refresh_payload) =
     Inr (ex_access_at 7, ex_refresh_at 7) \<and>
   (\<exists>sA sB.
      refresh_rotate ex_env 6000 ex_store ex_refresh_payload ex_refresh_row =
        (sA, Inr \<lparr>status = 200, data = TokenData (ex_access_at 6) (ex_refresh_at 6),
                  timestamp = 6000\<rparr>) \<and>
      refresh_rotate ex_env 7000 sA ex_refresh_payload ex_refresh_row =
        (sB, Inr \<lparr>status = 200, data = TokenData (ex_access_at 7) (ex_refresh_at 7),
                  timestamp = 7000\<rparr>) \<and>
      refreshTokens sB =
        [ex_refresh_row\<lparr>token := ex_refresh_at 7, expiresAt := 604807000\<rparr>]) \<and>
   refresh_rotate ex_env 7000 ex_empty ex_refresh_payload ex_refresh_row =
     (ex_empty, Inl (PrismaError ''P2025''))"
proof -
  have h1: "refresh_check ex_env 5000 ex_store (ex_refresh_at 0) =
              Inr (ex_refresh_payload, ex_refresh_row)"
    by (simp add: refresh_check_def verifyRefreshToken_def jwt_verify_def
          refreshToken_findFirst_def refresh_rotate_def generateTokens_def jwt_sign_def
          refreshToken_update_def ex_env_def ex_store_def ex_user_def ex_refresh_row_def
          ex_reset_row_def ex_refresh_at_def ex_reset_at_def ex_access_at_def
          ex_refresh_payload_def ex_empty_def)
  have h2: "generateTokens ex_env 6000 (payload_userId ex_refresh_payload) =
              Inr (ex_access_at 6, ex_refresh_at 6)"
    by (simp add: refresh_check_def verifyRefreshToken_def jwt_verify_def
          refreshToken_findFirst_def refresh_rotate_def generateTokens_def jwt_sign_def
          refreshToken_update_def ex_env_def ex_store_def ex_user_def ex_refresh_row_def
          ex_reset_row_def ex_refresh_at_def ex_reset_at_def ex_access_at_def
          ex_refresh_payload_def ex_empty_def)
  have h3: "generateTokens ex_env 7000 (payload_userId ex_refresh_payload) =
              Inr (ex_access_at 7, ex_refresh_at 7)"
    by (simp add: refresh_check_def verifyRefreshToken_def jwt_verify_def
          refreshToken_findFirst_def refresh_rotate_def generateTokens_def jwt_sign_def
          refreshToken_update_def ex_env_def ex_store_def ex_user_def ex_refresh_row_def
          ex_reset_row_def ex_refresh_at_def ex_reset_at_def ex_access_at_def
          ex_refresh_payload_def ex_empty_def)
  have e: "\<forall>x\<in>set (refreshTokens ex_empty). id' x \<noteq> id' ex_refresh_row"
    by (simp add: ex_env_def ex_store_def ex_user_def ex_refresh_row_def ex_reset_row_def
          ex_refresh_at_def ex_reset_at_def ex_access_at_def ex_refresh_payload_def
          ex_empty_def)
  have m: "map (\<lambda>x. if id' x = id' ex_refresh_row
                    then x\<lparr>token := ex_refresh_at 7,
                           expiresAt := 7000 + 7 * 24 * 60 * 60 * 1000\<rparr>
                    else x) (refreshTokens ex_store) =
           [ex_refresh_row\<lparr>token := ex_refresh_at 7, expiresAt := 604807000\<rparr>]"
    by (simp add: ex_store_def)
  from refresh_update_keyed_by_id[OF h1 h2 h3] e h1 h2 h3 show ?thesis
    unfolding m by blast
qed

text \<open>
  The claim as stated fails on that run. Both calls present the credential issued at
  time 0 and both pass verification and lookup at time 5000. The first writes at 6000
  and answers 200. From then on the credential matches no stored row (a lookup at 7000
  is refused), yet the second call, which holds the row it read at 5000, writes at 7000
  and answers 200 as well: two winners, no \<^verbatim>\<open>Invalid refresh token\<close>, and the one
  stored row holds the second call's token.
\<close>

theorem refresh_race_both_succeed:
  "refresh_check ex_env 5000 ex_store (ex_refresh_at 0) =
     Inr (ex_refresh_payload, ex_refresh_row) \<and>
   snd (refresh_rotate ex_env 6000 ex_store ex_refresh_payload ex_refresh_row) =
     Inr \<lparr>status = 200, data = TokenData (ex_access_at 6) (ex_refresh_at 6),
          timestamp = 6000\<rparr> \<and>
   refresh_check ex_env 7000
       (fst (refresh_rotate ex_env 6000 ex_store ex_refresh_payload ex_refresh_row))
       (ex_refresh_at 0) =
     Inl (AppError ''Invalid refresh token'' 401) \<and>
   snd (refresh_rotate ex_env 7000
       (fst (refresh_rotate ex_env 6000 ex_store ex_refresh_payload ex_refresh_row))
       ex_refresh_payload ex_refresh_row) =
     Inr \<lparr>status = 200, data = TokenData (ex_access_at 7) (ex_refresh_at 7),
          timestamp = 7000\<rparr> \<and>
   map token (refreshTokens (fst (refresh_rotate ex_env 7000
       (fst (refresh_rotate ex_env 6000 ex_store ex_refresh_payload ex_refresh_row))
       ex_refresh_payload ex_refresh_row))) = [ex_refresh_at 7]"
  by (simp add: refresh_check_def verifyRefreshToken_def jwt_verify_def
        refreshToken_findFirst_def refresh_rotate_def generateTokens_def jwt_sign_def
        refreshToken_update_def ex_env_def ex_store_def ex_user_def ex_refresh_row_def
        ex_reset_row_def ex_refresh_at_def ex_reset_at_def ex_access_at_def
        ex_refresh_payload_def ex_empty_def)

subsection \<open>C2: one refresh row per principal\<close>

text \<open>
  C2, as amended. In a sequential run, where each request is served to its end before
  the next starts: a successful \<open>login\<close> leaves exactly one refresh row for the user
  it authenticated, whatever number that user had before, and leaves the rows of every
  other user as they were; a successful \<open>register\<close> on a database whose refresh rows all
  belong to existing users leaves exactly one refresh row for the user it created; and
  every handler preserves \<open>session_invariant\<close>, at most one refresh row per principal
  together with the foreign key. The replacement in \<open>login\<close> is two database calls,
  \<^verbatim>\<open>deleteMany\<close> and \<^verbatim>\<open>create\<close>; nothing is said here about runs that interleave the
  calls of different requests.
\<close>

theorem login_replaces_record_sequentially:
  "(login e now s em pw = (s', Inr resp) \<longrightarrow>
      (\<exists>u. login_check s em pw = Inr u \<and>
           length (filter (\<lambda>r. userId r = id' u) (refreshTokens s')) = 1 \<and>
           filter (\<lambda>r. userId r \<noteq> id' u) (refreshTokens s') =
             filter (\<lambda>r. userId r \<noteq> id' u) (refreshTokens s))) \<and>
   (register e now s em pw nm = (s', Inr resp) \<and> owners_exist s \<longrightarrow>
      (\<exists>u. users s' = users s @ [u] \<and>
           length (filter (\<lambda>r. userId r = id' u) (refreshTokens s')) = 1)) \<and>
   (session_invariant s \<longrightarrow>
      session_invariant (fst (register e now s em pw nm)) \<and>
      session_invariant (fst (login e now s em pw)) \<and>
      session_invariant (fst (refreshToken e now s tok)) \<and>
      session_invariant (fst (logout now s uid)) \<and>
      session_invariant (fst (forgotPassword e now s em)) \<and>
      session_invariant (fst (resetPassword e now s tok pw)))"
proof (intro conjI impI)
  assume "login e now s em pw = (s', Inr resp)"
  from login_tokens[OF this] obtain u x where
    c: "login_check s em pw = Inr u" and x: "userId x = id' u"
    "refreshTokens s' = filter (\<lambda>y. userId y \<noteq> id' u) (refreshTokens s) @ [x]" by blast
  have "filter (\<lambda>r. userId r = id' u) (filter (\<lambda>y. userId y \<noteq> id' u) xs) = []"
    for xs :: "refresh_token list"
    by (induction xs) auto
  then have "length (filter (\<lambda>r. userId r = id' u) (refreshTokens s')) = 1"
    by (simp add: x)
  moreover have "filter (\<lambda>r. userId r \<noteq> id' u) (refreshTokens s') =
             filter (\<lambda>r. userId r \<noteq> id' u) (refreshTokens s)"
    by (simp add: x)
  ultimately show "\<exists>u. login_check s em pw = Inr u \<and>
           length (filter (\<lambda>r. userId r = id' u) (refreshTokens s')) = 1 \<and>
           filter (\<lambda>r. userId r \<noteq> id' u) (refreshTokens s') =
             filter (\<lambda>r. userId r \<noteq> id' u) (refreshTokens s)"
    using c by blast
next
  assume a: "register e now s em pw nm = (s', Inr resp) \<and> owners_exist s"
  from register_tokens[OF a[THEN conjunct1]] obtain u x where
      u: "users s' = users s @ [u]" "id' u = fresh_id (map id' (users s))"
      and x: "userId x = id' u" "refreshTokens s' = refreshTokens s @ [x]" by blast
  have "\<forall>y\<in>set (refreshTokens s). userId y \<noteq> id' u"
  proof
    fix y assume "y \<in> set (refreshTokens s)"
    then have "userId y \<in> set (map userId (refreshTokens s))" by simp
    with fresh_owner[OF a[THEN conjunct2]] show "userId y \<noteq> id' u" by (auto simp: u)
  qed
  then have "filter (\<lambda>r. userId r = id' u) (refreshTokens s) = []"
    by (simp add: filter_empty_conv)
  then have "length (filter (\<lambda>r. userId r = id' u) (refreshTokens s')) = 1"
    by (simp add: x)
  with u show "\<exists>u. users s' = users s @ [u] \<and>
           length (filter (\<lambda>r. userId r = id' u) (refreshTokens s')) = 1" by blast
qed (rule invariant_register invariant_login invariant_refreshToken invariant_logout
          invariant_forgotPassword invariant_resetPassword, assumption)+

text \<open>
  A login of user 1 on a database where that user has two refresh rows leaves one, and
  leaves the row of user 2; a registration on the example deployment leaves one row for
  the new user; all six handlers keep the invariant of the example deployment.
\<close>

theorem login_replaces_record_sequentially_witness:
  "map userId (refreshTokens ex_store_dup) = [1, 1, 2] \<and>
   snd (login ex_env 5000 ex_store_dup ''a@x.com'' ''pw'') =
     Inr \<lparr>status = 200,
          data = AuthData \<lparr>ur_id = 1, ur_email = ''a@x.com'', ur_name = ''Ann''\<rparr>
                   (ex_access_at 5) (ex_refresh_at 5),
          timestamp = 5000\<rparr> \<and>
   map userId (refreshTokens (fst (login ex_env 5000 ex_store_dup ''a@x.com'' ''pw''))) = [2, 1] \<and>
   (\<exists>u. login_check ex_store_dup ''a@x.com'' ''pw'' = Inr u \<and>
        length (filter (\<lambda>r. userId r = id' u)
                  (refreshTokens (fst (login ex_env 5000 ex_store_dup ''a@x.com'' ''pw'')))) = 1 \<and>
        filter (\<lambda>r. userId r \<noteq> id' u)
          (refreshTokens (fst (login ex_env 5000 ex_store_dup ''a@x.com'' ''pw''))) =
        filter (\<lambda>r. userId r \<noteq> id' u) (refreshTokens ex_store_dup)) \<and>
   owners_exist ex_store \<and>
   snd (register ex_env 5000 ex_store ''b@x.com'' ''password'' ''Bob'') =
     Inr \<lparr>status = 201,
          data = AuthData \<lparr>ur_id = 2, ur_email = ''b@x.com'', ur_name = ''Bob''\<rparr>
                   (Jwt \<lparr>payload_userId = 2, payload_type = ''access'', payload_iat = 5,
                         payload_exp = 905\<rparr> ''ka'')
                   (Jwt \<lparr>payload_userId = 2, payload_type = ''refresh'', payload_iat = 5,
                         payload_exp = 604805\<rparr> ''kr''),
          timestamp = 5000\<rparr> \<and>
   (\<exists>u. users (fst (register ex_env 5000 ex_store ''b@x.com'' ''password'' ''Bob'')) =
          users ex_store @ [u] \<and>
        length (filter (\<lambda>r. userId r = id' u)
                  (refreshTokens (fst (register ex_env 5000 ex_store ''b@x.com'' ''password''
                                         ''Bob'')))) = 1) \<and>
   session_invariant ex_store \<and>
   session_invariant (fst (register ex_env 5000 ex_store ''b@x.com'' ''password'' ''Bob'')) \<and>
   session_invariant (fst (login ex_env 5000 ex_store ''b@x.com'' ''password'')) \<and>
   session_invariant (fst (refreshToken ex_env 5000 ex_store (ex_refresh_at 0))) \<and>
   session_invariant (fst (logout 5000 ex_store (Some 1))) \<and>
   session_invariant (fst (forgotPassword ex_env 5000 ex_store ''b@x.com'')) \<and>
   session_invariant (fst (resetPassword ex_env 5000 ex_store (ex_refresh_at 0) ''password''))"
proof -
  let ?log = "login ex_env 5000 ex_store_dup ''a@x.com'' ''pw''"
  let ?reg = "register ex_env 5000 ex_store ''b@x.com'' ''password'' ''Bob''"
  have d: "map userId (refreshTokens ex_store_dup) = [1, 1, 2]"
    by (simp add: ex_env_def ex_store_def ex_user_def ex_refresh_row_def ex_reset_row_def
          ex_refresh_at_def ex_reset_at_def ex_access_at_def ex_other_def ex_other_row_def
          ex_store_dup_def ex_interleaved_logins_def)
  have l1: "snd ?log =
     Inr \<lparr>status = 200,
          data = AuthData \<lparr>ur_id = 1, ur_email = ''a@x.com'', ur_name = ''Ann''\<rparr>
                   (ex_access_at 5) (ex_refresh_at 5),
          timestamp = 5000\<rparr>"
    by (simp add: login_def login_check_def user_findUnique_def bcrypt_compare_def
          generateTokens_def jwt_sign_def refreshToken_deleteMany_def
          refreshToken_create_def fresh_id_def user_update_lastLoginAt_def
          formatUserResponse_def register_def user_create_def bcrypt_hash_def ex_env_def
          ex_store_def ex_user_def ex_refresh_row_def ex_reset_row_def ex_refresh_at_def
          ex_reset_at_def ex_access_at_def ex_other_def ex_other_row_def ex_store_dup_def
          ex_interleaved_logins_def Let_def)
  have l2: "map userId (refreshTokens (fst ?log)) = [2, 1]"
    by (simp add: login_def login_check_def user_findUnique_def bcrypt_compare_def
          generateTokens_def jwt_sign_def refreshToken_deleteMany_def
          refreshToken_create_def fresh_id_def user_update_lastLoginAt_def
          formatUserResponse_def register_def user_create_def bcrypt_hash_def ex_env_def
          ex_store_def ex_user_def ex_refresh_row_def ex_reset_row_def ex_refresh_at_def
          ex_reset_at_def ex_access_at_def ex_other_def ex_other_row_def ex_store_dup_def
          ex_interleaved_logins_def Let_def)
  have r1: "snd ?reg =
     Inr \<lparr>status = 201,
          data = AuthData \<lparr>ur_id = 2, ur_email = ''b@x.com'', ur_name = ''Bob''\<rparr>
                   (Jwt \<lparr>payload_userId = 2, payload_type = ''access'', payload_iat = 5,
                         payload_exp = 905\<rparr> ''ka'')
                   (Jwt \<lparr>payload_userId = 2, payload_type = ''refresh'', payload_iat = 5,
                         payload_exp = 604805\<rparr> ''kr''),
          timestamp = 5000\<rparr>"
    by (simp add: login_def login_check_def user_findUnique_def bcrypt_compare_def
          generateTokens_def jwt_sign_def refreshToken_deleteMany_def
          refreshToken_create_def fresh_id_def user_update_lastLoginAt_def
          formatUserResponse_def register_def user_create_def bcrypt_hash_def ex_env_def
          ex_store_def ex_user_def ex_refresh_row_def ex_reset_row_def ex_refresh_at_def
          ex_reset_at_def ex_access_at_def ex_other_def ex_other_row_def ex_store_dup_def
          ex_interleaved_logins_def Let_def)
  have o: "owners_exist ex_store" and i: "session_invariant ex_store"
    by (simp_all add: one_record_per_principal_def owners_exist_def session_invariant_def
          ex_env_def ex_store_def ex_user_def ex_refresh_row_def ex_reset_row_def
          ex_refresh_at_def ex_reset_at_def ex_access_at_def ex_other_def ex_other_row_def
          ex_store_dup_def ex_interleaved_logins_def)
  from l1 have l0: "?log = (fst ?log, Inr \<lparr>status = 200,
          data = AuthData \<lparr>ur_id = 1, ur_email = ''a@x.com'', ur_name = ''Ann''\<rparr>
                   (ex_access_at 5) (ex_refresh_at 5),
          timestamp = 5000\<rparr>)"
    by (metis prod.collapse)
  from r1 have r0: "?reg = (fst ?reg, Inr \<lparr>status = 201,
          data = AuthData \<lparr>ur_id = 2, ur_email = ''b@x.com'', ur_name = ''Bob''\<rparr>
                   (Jwt \<lparr>payload_userId = 2, payload_type = ''access'', payload_iat = 5,
                         payload_exp = 905\<rparr> ''ka'')
                   (Jwt \<lparr>payload_userId = 2, payload_type = ''refresh'', payload_iat = 5,
                         payload_exp = 604805\<rparr> ''kr''),
          timestamp = 5000\<rparr>)"
    by (metis prod.collapse)
  from login_replaces_record_sequentially[THEN conjunct1, rule_format, OF l0]
       login_replaces_record_sequentially[THEN conjunct2, THEN conjunct1, rule_format,
         OF conjI[OF r0 o]]
       login_replaces_record_sequentially[THEN conjunct2, THEN conjunct2, rule_format, OF i,
         of ex_env 5000 "''b@x.com''" "''password''" "''Bob''" "ex_refresh_at 0" "Some 1"]
       d l1 l2 r1 o i
  show ?thesis by blast
qed

text \<open>
  The claim as stated fails: the replacement is not one atomic operation. Two logins
  of user 1 start from the example deployment, which satisfies the invariant; both pass
  the password check and sign their pairs. Their database calls interleave as in
  \<open>ex_interleaved_logins\<close>: each \<^verbatim>\<open>deleteMany\<close> runs before either \<^verbatim>\<open>create\<close>.
  When both requests have finished, user 1 has two refresh rows.
\<close>

theorem login_interleaving_two_records:
  "session_invariant ex_store \<and>
   login_check ex_store ''a@x.com'' ''pw'' = Inr ex_user \<and>
   id' ex_user = 1 \<and>
   generateTokens ex_env 5000 1 = Inr (ex_access_at 5, ex_refresh_at 5) \<and>
   generateTokens ex_env 6000 1 = Inr (ex_access_at 6, ex_refresh_at 6) \<and>
   map userId (refreshTokens ex_interleaved_logins) = [1, 1] \<and>
   map token (refreshTokens ex_interleaved_logins) = [ex_refresh_at 5, ex_refresh_at 6] \<and>
   \<not> one_record_per_principal ex_interleaved_logins"
  by (simp add: login_def login_check_def user_findUnique_def bcrypt_compare_def
        generateTokens_def jwt_sign_def refreshToken_deleteMany_def refreshToken_create_def
        fresh_id_def user_update_lastLoginAt_def formatUserResponse_def register_def
        user_create_def bcrypt_hash_def one_record_per_principal_def owners_exist_def
        session_invariant_def ex_env_def ex_store_def ex_user_def ex_refresh_row_def
        ex_reset_row_def ex_refresh_at_def ex_reset_at_def ex_access_at_def ex_other_def
        ex_other_row_def ex_store_dup_def ex_interleaved_logins_def)

subsection \<open>C3: how often a reset credential is redeemed\<close>




subsection \<open>C4: which key signs which kind\<close>

text \<open>
  C4, as amended. \<open>generateTokens\<close> signs the access credential with \<open>JWT_SECRET\<close> and
  the refresh credential with \<open>JWT_REFRESH_SECRET\<close>; \<open>forgotPassword\<close> signs the
  password-reset credential with \<open>JWT_SECRET\<close>, the key of the access kind. The access
  and the reset kind share their key and are told apart by the \<open>type\<close> field alone: an
  unexpired access credential passes the signature check of \<open>resetPassword\<close> and is
  refused there as \<^verbatim>\<open>Invalid reset token\<close>, by its type.
\<close>

theorem signing_keys_by_kind:
  "(generateTokens e now uid = Inr (acc, ref) \<longrightarrow>
      signing_key acc = JWT_SECRET e \<and> signing_key ref = JWT_REFRESH_SECRET e \<and>
      (\<not> expired now' acc \<longrightarrow>
         reset_check e now' s acc = Inl (AppError ''Invalid reset token'' 400))) \<and>
   (user_findUnique s em = Some u \<and> forgotPassword e now s em = (s', Inr resp) \<longrightarrow>
      signing_key (token (last (passwordResets s'))) = JWT_SECRET e)"
proof (intro conjI impI)
  assume g: "generateTokens e now uid = Inr (acc, ref)"
  show "signing_key acc = JWT_SECRET e"
    by (rule signing_key_sign[OF generateTokens_Inr[OF g, THEN conjunct1]])
  show "signing_key ref = JWT_REFRESH_SECRET e"
    by (rule signing_key_sign[OF generateTokens_Inr[OF g, THEN conjunct2]])
  assume "\<not> expired now' acc"
  from sign_verify[OF generateTokens_Inr[OF g, THEN conjunct1] this]
  show "reset_check e now' s acc = Inl (AppError ''Invalid reset token'' 400)"
    by (auto simp: reset_check_def)
next
  assume "user_findUnique s em = Some u \<and> forgotPassword e now s em = (s', Inr resp)"
  then show "signing_key (token (last (passwordResets s'))) = JWT_SECRET e"
    by (auto simp: forgotPassword_def passwordReset_create_def signing_key_sign
             split: sum.splits)
qed

text \<open>The example deployment at time 5000.\<close>

theorem signing_keys_by_kind_witness:
  "generateTokens ex_env 5000 1 = Inr (ex_access_at 5, ex_refresh_at 5) \<and>
   signing_key (ex_access_at 5) = JWT_SECRET ex_env \<and>
   signing_key (ex_refresh_at 5) = JWT_REFRESH_SECRET ex_env \<and>
   \<not> expired 6000 (ex_access_at 5) \<and>
   reset_check ex_env 6000 ex_store (ex_access_at 5) =
     Inl (AppError ''Invalid reset token'' 400) \<and>
   user_findUnique ex_store ''a@x.com'' = Some ex_user \<and>
   forgotPassword ex_env 5000 ex_store ''a@x.com'' =
     (passwordReset_create ex_store (ex_reset_at 5) 1 3605000, Inr (reset_requested 5000)) \<and>
   signing_key
     (token (last (passwordResets (passwordReset_create ex_store (ex_reset_at 5) 1 3605000)))) =
     JWT_SECRET ex_env"
proof -
  have g: "generateTokens ex_env 5000 1 = Inr (ex_access_at 5, ex_refresh_at 5)"
    by (simp add: generateTokens_def jwt_sign_def reset_check_def jwt_verify_def
          passwordReset_findFirst_def user_findUnique_def forgotPassword_def
          passwordReset_create_def fresh_id_def ex_env_def ex_store_def ex_user_def
          ex_refresh_row_def ex_reset_row_def ex_refresh_at_def ex_reset_at_def
          ex_access_at_def)
  have ne: "\<not> expired 6000 (ex_access_at 5)"
    by (simp add: signing_key_def expired_def reset_requested_def ex_env_def ex_store_def
          ex_user_def ex_refresh_row_def ex_reset_row_def ex_refresh_at_def ex_reset_at_def
          ex_access_at_def)
  have u: "user_findUnique ex_store ''a@x.com'' = Some ex_user"
    by (simp add: generateTokens_def jwt_sign_def reset_check_def jwt_verify_def
          passwordReset_findFirst_def user_findUnique_def forgotPassword_def
          passwordReset_create_def fresh_id_def ex_env_def ex_store_def ex_user_def
          ex_refresh_row_def ex_reset_row_def ex_refresh_at_def ex_reset_at_def
          ex_access_at_def)
  have f: "forgotPassword ex_env 5000 ex_store ''a@x.com'' =
     (passwordReset_create ex_store (ex_reset_at 5) 1 3605000, Inr (reset_requested 5000))"
    by (simp add: generateTokens_def jwt_sign_def reset_check_def jwt_verify_def
          passwordReset_findFirst_def user_findUnique_def forgotPassword_def
          passwordReset_create_def fresh_id_def signing_key_def expired_def
          reset_requested_def ex_env_def ex_store_def ex_user_def ex_refresh_row_def
          ex_reset_row_def ex_refresh_at_def ex_reset_at_def ex_access_at_def)
  from signing_keys_by_kind[THEN conjunct1, rule_format, OF g]
       signing_keys_by_kind[of ex_env 5000 1 "ex_access_at 5" "ex_refresh_at 5" 6000 ex_store,
         THEN conjunct1, THEN mp, OF g, THEN conjunct2, THEN conjunct2, THEN mp, OF ne]
       signing_keys_by_kind[THEN conjunct2, rule_format, OF conjI[OF u f]]
       g ne u f
  show ?thesis by simp
qed

text \<open>
  The claim as stated fails: the reset credential is signed with the access key. In
  the example deployment the credential that \<open>forgotPassword\<close> stores at time 5000
  carries the key \<^verbatim>\<open>ka\<close>, the key of the access credential issued at the same time,
  and not \<^verbatim>\<open>kr\<close>, the key of the refresh credential.
\<close>

theorem reset_signed_with_access_key:
  "generateTokens ex_env 5000 1 = Inr (ex_access_at 5, ex_refresh_at 5) \<and>
   signing_key (ex_access_at 5) = Some ''ka'' \<and>
   signing_key (ex_refresh_at 5) = Some ''kr'' \<and>
   map token (passwordResets (fst (forgotPassword ex_env 5000 ex_store ''a@x.com''))) =
     [ex_reset_at 0, ex_reset_at 5] \<and>
   signing_key (ex_reset_at 5) = Some ''ka'' \<and>
   signing_key (ex_reset_at 5) = signing_key (ex_access_at 5) \<and>
   signing_key (ex_reset_at 5) \<noteq> signing_key (ex_refresh_at 5)"
  by (simp add: generateTokens_def jwt_sign_def reset_check_def jwt_verify_def
        passwordReset_findFirst_def user_findUnique_def forgotPassword_def
        passwordReset_create_def fresh_id_def signing_key_def expired_def
        reset_requested_def ex_env_def ex_store_def ex_user_def ex_refresh_row_def
        ex_reset_row_def ex_refresh_at_def ex_reset_at_def ex_access_at_def)

subsection \<open>C5: what the transaction of \<open>resetPassword\<close> covers\<close>

text \<open>
  C5, as amended. The two writes of \<open>resetPassword\<close>, the user's password hash and the
  \<open>used\<close> flag of the reset row, are one transaction: \<open>reset_commit\<close> either makes both
  (\<open>reset_written\<close>) or, when no row has the identifier it was given, makes neither
  and fails. Every failure of \<open>resetPassword\<close> leaves the database as it was, and every
  success is a successful \<open>reset_check\<close> followed by both writes. The lookup of the
  matching row belongs to \<open>reset_check\<close>, a database call of its own that precedes the
  transaction; the transaction does not look at the \<open>used\<close> flag or the expiry again.
\<close>

theorem reset_writes_commit_together:
  "(resetPassword e now s tok pw = (s', Inl err) \<longrightarrow> s' = s) \<and>
   (resetPassword e now s tok pw = (s', Inr resp) \<longrightarrow>
      (\<exists>p r. reset_check e now s tok = Inr (p, r) \<and>
             s' = reset_written s (payload_userId p) pw (id' r))) \<and>
   reset_commit now s p r pw =
     (if \<exists>x\<in>set (passwordResets s). id' x = id' r
      then (reset_written s (payload_userId p) pw (id' r), Inr (reset_done now))
      else (s, Inl (PrismaError ''P2025'')))"
proof (intro conjI impI)
  assume "resetPassword e now s tok pw = (s', Inl err)"
  then show "s' = s" by (simp add: resetPassword_Inl)
next
  assume "resetPassword e now s tok pw = (s', Inr resp)"
  from resetPassword_Inr[OF this]
  show "\<exists>p r. reset_check e now s tok = Inr (p, r) \<and>
             s' = reset_written s (payload_userId p) pw (id' r)" by blast
next
  show "reset_commit now s p r pw =
     (if \<exists>x\<in>set (passwordResets s). id' x = id' r
      then (reset_written s (payload_userId p) pw (id' r), Inr (reset_done now))
      else (s, Inl (PrismaError ''P2025'')))"
    using reset_commit_found[of s r now p pw] reset_commit_missing[of s r now p pw]
    by (cases "\<exists>x\<in>set (passwordResets s). id' x = id' r") simp_all
qed

text \<open>
  The example deployment: a redemption with a token that is no JWT fails and changes
  nothing; the redemption of the stored credential makes both writes; the transaction
  against a database without the row makes none.
\<close>

theorem reset_writes_commit_together_witness:
  "resetPassword ex_env 5000 ex_store (NotAJwt ''junk'') ''new-pass'' =
     (ex_store, Inl (AppError ''Invalid or expired reset token'' 400)) \<and>
   resetPassword ex_env 5000 ex_store (ex_reset_at 0) ''new-pass'' =
     (reset_written ex_store 1 ''new-pass'' 1, Inr (reset_done 5000)) \<and>
   (\<exists>p r. reset_check ex_env 5000 ex_store (ex_reset_at 0) = Inr (p, r) \<and>
          reset_written ex_store 1 ''new-pass'' 1 =
            reset_written ex_store (payload_userId p) ''new-pass'' (id' r)) \<and>
   reset_commit 5000 ex_store ex_reset_payload ex_reset_row ''new-pass'' =
     (reset_written ex_store 1 ''new-pass'' 1, Inr (reset_done 5000)) \<and>
   reset_commit 5000 ex_empty ex_reset_payload ex_reset_row ''new-pass'' =
     (ex_empty, Inl (PrismaError ''P2025''))"
proof -
  have a: "resetPassword ex_env 5000 ex_store (NotAJwt ''junk'') ''new-pass'' =
     (ex_store, Inl (AppError ''Invalid or expired reset token'' 400))"
    by (simp add: resetPassword_def reset_check_def jwt_verify_def
          passwordReset_findFirst_def reset_commit_def reset_transaction_def
          user_update_password_def passwordReset_update_used_def bcrypt_hash_def ex_env_def
          ex_store_def ex_user_def ex_refresh_row_def ex_reset_row_def ex_refresh_at_def
          ex_reset_at_def ex_reset_payload_def ex_empty_def)
  have b: "resetPassword ex_env 5000 ex_store (ex_reset_at 0) ''new-pass'' =
     (reset_written ex_store 1 ''new-pass'' 1, Inr (reset_done 5000))"
    by (simp add: resetPassword_def reset_check_def jwt_verify_def
          passwordReset_findFirst_def reset_commit_def reset_transaction_def
          user_update_password_def passwordReset_update_used_def bcrypt_hash_def
          reset_written_def reset_done_def ex_env_def ex_store_def ex_user_def
          ex_refresh_row_def ex_reset_row_def ex_refresh_at_def ex_reset_at_def
          ex_reset_payload_def ex_empty_def)
  have ids: "payload_userId ex_reset_payload = 1" "id' ex_reset_row = 1"
    by (simp_all add: ex_env_def ex_store_def ex_user_def ex_refresh_row_def
          ex_reset_row_def ex_refresh_at_def ex_reset_at_def ex_reset_payload_def
          ex_empty_def)
  have ex1: "\<exists>x\<in>set (passwordResets ex_store). id' x = id' ex_reset_row"
    and ex2: "\<not> (\<exists>x\<in>set (passwordResets ex_empty). id' x = id' ex_reset_row)"
    by (simp_all add: ex_env_def ex_store_def ex_user_def ex_refresh_row_def
          ex_reset_row_def ex_refresh_at_def ex_reset_at_def ex_reset_payload_def
          ex_empty_def)
  note c = reset_writes_commit_together[THEN conjunct2, THEN conjunct2]
  from reset_writes_commit_together[THEN conjunct1, rule_format, OF a]
       reset_writes_commit_together[THEN conjunct2, THEN conjunct1, rule_format, OF b]
       c[of 5000 ex_store ex_reset_payload ex_reset_row "''new-pass''"]
       c[of 5000 ex_empty ex_reset_payload ex_reset_row "''new-pass''"]
       a b ex1 ex2
  show ?thesis unfolding ids by simp
qed

text \<open>
  The claim as stated fails: the lookup is not part of the transaction. Two redemptions
  present the stored credential of the example deployment and both pass \<open>reset_check\<close>
  at time 5000. The first commits at 6000 with one new password. From then on the row is
  used and a lookup is refused (at 6500), yet the second redemption, holding the row it
  read at 5000, commits at 7000, answers 200 and overwrites the password: the
  credential has been redeemed twice.
\<close>

theorem reset_race_both_redeem:
  "reset_check ex_env 5000 ex_store (ex_reset_at 0) = Inr (ex_reset_payload, ex_reset_row) \<and>
   reset_commit 6000 ex_store ex_reset_payload ex_reset_row ''pass-one'' =
     (reset_written ex_store 1 ''pass-one'' 1, Inr (reset_done 6000)) \<and>
   map used (passwordResets (reset_written ex_store 1 ''pass-one'' 1)) = [True] \<and>
   reset_check ex_env 6500 (reset_written ex_store 1 ''pass-one'' 1) (ex_reset_at 0) =
     Inl (AppError ''Invalid or expired reset token'' 400) \<and>
   snd (reset_commit 7000 (reset_written ex_store 1 ''pass-one'' 1) ex_reset_payload
          ex_reset_row ''pass-two'') = Inr (reset_done 7000) \<and>
   map password (users (fst (reset_commit 7000 (reset_written ex_store 1 ''pass-one'' 1)
          ex_reset_payload ex_reset_row ''pass-two''))) = [Bcrypt ''pass-two'']"
  by (simp add: resetPassword_def reset_check_def jwt_verify_def passwordReset_findFirst_def
        reset_commit_def reset_transaction_def user_update_password_def
        passwordReset_update_used_def bcrypt_hash_def reset_written_def reset_done_def
        ex_env_def ex_store_def ex_user_def ex_refresh_row_def ex_reset_row_def
        ex_refresh_at_def ex_reset_at_def ex_reset_payload_def ex_empty_def)

subsection \<open>C6: \<open>forgotPassword\<close> does not reveal whether the account exists\<close>

text \<open>
  C6. With \<open>JWT_SECRET\<close> configured (set and not empty), \<open>forgotPassword\<close> answers
  every email with the same response, status 200 and the message
  \<^verbatim>\<open>If the email exists, a reset link has been sent.\<close>, whatever the database holds:
  the answers of two runs on any two databases are equal, so a run on a database with
  the account and a run on one without it cannot be told apart by their outcome. When
  no live user has the email, the call returns the database unchanged.
\<close>

theorem forgotPassword_constant_outcome:
  "(JWT_SECRET e = Some k \<and> k \<noteq> [] \<longrightarrow>
      snd (forgotPassword e now s1 em) = Inr (reset_requested now) \<and>
      snd (forgotPassword e now s2 em) = snd (forgotPassword e now s1 em)) \<and>
   (user_findUnique s em = None \<longrightarrow> forgotPassword e now s em = (s, Inr (reset_requested now)))"
proof (intro conjI impI)
  assume k: "JWT_SECRET e = Some k \<and> k \<noteq> []"
  from forgotPassword_snd[OF k[THEN conjunct1] k[THEN conjunct2]]
  show 1: "snd (forgotPassword e now s1 em) = Inr (reset_requested now)" .
  from forgotPassword_snd[OF k[THEN conjunct1] k[THEN conjunct2]]
  have "snd (forgotPassword e now s2 em) = Inr (reset_requested now)" .
  with 1 show "snd (forgotPassword e now s2 em) = snd (forgotPassword e now s1 em)" by simp
next
  assume "user_findUnique s em = None"
  then show "forgotPassword e now s em = (s, Inr (reset_requested now))"
    by (simp add: forgotPassword_def reset_requested_def)
qed

text \<open>
  The example deployment, where \<^verbatim>\<open>a@x.com\<close> has an account, against the empty
  database, where it has none.
\<close>

theorem forgotPassword_constant_outcome_witness:
  "JWT_SECRET ex_env = Some ''ka'' \<and> ''ka'' \<noteq> [] \<and>
   user_findUnique ex_store ''a@x.com'' = Some ex_user \<and>
   user_findUnique ex_empty ''a@x.com'' = None \<and>
   snd (forgotPassword ex_env 5000 ex_store ''a@x.com'') = Inr (reset_requested 5000) \<and>
   snd (forgotPassword ex_env 5000 ex_empty ''a@x.com'') =
     snd (forgotPassword ex_env 5000 ex_store ''a@x.com'') \<and>
   forgotPassword ex_env 5000 ex_empty ''a@x.com'' = (ex_empty, Inr (reset_requested 5000))"
proof -
  have k: "JWT_SECRET ex_env = Some ''ka'' \<and> ''ka'' \<noteq> []"
    by (simp add: ex_env_def ex_store_def ex_user_def ex_refresh_row_def ex_reset_row_def
          ex_refresh_at_def ex_reset_at_def ex_empty_def)
  have u1: "user_findUnique ex_store ''a@x.com'' = Some ex_user"
    and u2: "user_findUnique ex_empty ''a@x.com'' = None"
    by (simp_all add: user_findUnique_def ex_env_def ex_store_def ex_user_def
          ex_refresh_row_def ex_reset_row_def ex_refresh_at_def ex_reset_at_def
          ex_empty_def)
  note inst = forgotPassword_constant_outcome[of ex_env "''ka''" 5000 ex_store "''a@x.com''"
                ex_empty ex_empty]
  from inst[THEN conjunct1, THEN mp, OF k] inst[THEN conjunct2, THEN mp, OF u2] k u1 u2
  show ?thesis by blast
qed

subsection \<open>C7: the errors of \<open>refreshToken\<close> and \<open>resetPassword\<close>\<close>

text \<open>
  C7, as amended. Every failure of the two checks of \<open>refreshToken\<close>, the verification
  (bad signature, wrong kind, expired) and the lookup (no matching unexpired row), is
  the one error \<^verbatim>\<open>Invalid refresh token\<close>, status 401; the only other failure of the
  handler is \<^verbatim>\<open>jwt.sign\<close> throwing when it signs the new pair. Every failure of
  \<open>resetPassword\<close> has status 400 and one of two messages:
  \<^verbatim>\<open>Invalid or expired reset token\<close> for a bad or expired signature and for a missing
  row, and \<^verbatim>\<open>Invalid reset token\<close> exactly when the credential verifies under
  \<open>JWT_SECRET\<close> and carries another kind.
\<close>

theorem failure_codes:
  "(refreshToken e now s tok = (s', Inl err) \<longrightarrow>
      err = AppError ''Invalid refresh token'' 401 \<and> refresh_check e now s tok = Inl err \<or>
      err = SignError \<and> (\<exists>p r. refresh_check e now s tok = Inr (p, r) \<and>
                                generateTokens e now (payload_userId p) = Inl SignError)) \<and>
   (refresh_check e now s tok = Inl err \<longrightarrow> err = AppError ''Invalid refresh token'' 401) \<and>
   (resetPassword e now s tok pw = (s', Inl err) \<longrightarrow>
      err = AppError ''Invalid or expired reset token'' 400 \<or>
      err = AppError ''Invalid reset token'' 400 \<and>
      (\<exists>p. jwt_verify tok (JWT_SECRET e) now = Inr p \<and> payload_type p \<noteq> ''password-reset'')) \<and>
   (jwt_verify tok (JWT_SECRET e) now = Inr q \<and> payload_type q \<noteq> ''password-reset'' \<longrightarrow>
      resetPassword e now s tok pw = (s, Inl (AppError ''Invalid reset token'' 400)))"
proof (intro conjI impI)
  assume "refreshToken e now s tok = (s', Inl err)"
  from refreshToken_Inl[OF this]
  show "err = AppError ''Invalid refresh token'' 401 \<and> refresh_check e now s tok = Inl err \<or>
      err = SignError \<and> (\<exists>p r. refresh_check e now s tok = Inr (p, r) \<and>
                                generateTokens e now (payload_userId p) = Inl SignError)"
    by (rule conjunct2)
next
  assume "refresh_check e now s tok = Inl err"
  then show "err = AppError ''Invalid refresh token'' 401" by (rule refresh_check_Inl)
next
  assume "resetPassword e now s tok pw = (s', Inl err)"
  then have "reset_check e now s tok = Inl err" by (simp add: resetPassword_Inl)
  then show "err = AppError ''Invalid or expired reset token'' 400 \<or>
      err = AppError ''Invalid reset token'' 400 \<and>
      (\<exists>p. jwt_verify tok (JWT_SECRET e) now = Inr p \<and> payload_type p \<noteq> ''password-reset'')"
    by (rule reset_check_Inl)
next
  assume "jwt_verify tok (JWT_SECRET e) now = Inr q \<and> payload_type q \<noteq> ''password-reset''"
  then show "resetPassword e now s tok pw = (s, Inl (AppError ''Invalid reset token'' 400))"
    by (simp add: resetPassword_def reset_check_def)
qed

text \<open>
  The example deployment: an expired refresh credential and a credential that matches
  no row are both refused with the 401; an access credential presented to
  \<open>resetPassword\<close> is refused with the second message.
\<close>

theorem failure_codes_witness:
  "refreshToken ex_env 604800000 ex_store (ex_refresh_at 0) =
     (ex_store, Inl (AppError ''Invalid refresh token'' 401)) \<and>
   refresh_check ex_env 5000 ex_store (ex_refresh_at 7) =
     Inl (AppError ''Invalid refresh token'' 401) \<and>
   resetPassword ex_env 5000 ex_store (ex_access_at 5) ''new-pass'' =
     (ex_store, Inl (AppError ''Invalid reset token'' 400)) \<and>
   (\<exists>p. jwt_verify (ex_access_at 5) (JWT_SECRET ex_env) 5000 = Inr p \<and>
        payload_type p \<noteq> ''password-reset'') \<and>
   jwt_verify (ex_access_at 6) (JWT_SECRET ex_env) 6000 =
     Inr \<lparr>payload_userId = 1, payload_type = ''access'', payload_iat = 6, payload_exp = 906\<rparr> \<and>
   resetPassword ex_env 6000 ex_store (ex_access_at 6) ''new-pass'' =
     (ex_store, Inl (AppError ''Invalid reset token'' 400))"
proof -
  have a: "refreshToken ex_env 604800000 ex_store (ex_refresh_at 0) =
     (ex_store, Inl (AppError ''Invalid refresh token'' 401))"
    by (simp add: refreshToken_def refresh_check_def verifyRefreshToken_def jwt_verify_def
          refreshToken_findFirst_def refresh_rotate_def generateTokens_def jwt_sign_def
          refreshToken_update_def resetPassword_def reset_check_def
          passwordReset_findFirst_def reset_commit_def reset_transaction_def
          user_update_password_def passwordReset_update_used_def bcrypt_hash_def ex_env_def
          ex_store_def ex_user_def ex_refresh_row_def ex_reset_row_def ex_refresh_at_def
          ex_reset_at_def ex_access_at_def)
  have b: "refresh_check ex_env 5000 ex_store (ex_refresh_at 7) =
     Inl (AppError ''Invalid refresh token'' 401)"
    by (simp add: refreshToken_def refresh_check_def verifyRefreshToken_def jwt_verify_def
          refreshToken_findFirst_def refresh_rotate_def generateTokens_def jwt_sign_def
          refreshToken_update_def resetPassword_def reset_check_def
          passwordReset_findFirst_def reset_commit_def reset_transaction_def
          user_update_password_def passwordReset_update_used_def bcrypt_hash_def ex_env_def
          ex_store_def ex_user_def ex_refresh_row_def ex_reset_row_def ex_refresh_at_def
          ex_reset_at_def ex_access_at_def)
  have c: "resetPassword ex_env 5000 ex_store (ex_access_at 5) ''new-pass'' =
     (ex_store, Inl (AppError ''Invalid reset token'' 400))"
    by (simp add: refreshToken_def refresh_check_def verifyRefreshToken_def jwt_verify_def
          refreshToken_findFirst_def refresh_rotate_def generateTokens_def jwt_sign_def
          refreshToken_update_def resetPassword_def reset_check_def
          passwordReset_findFirst_def reset_commit_def reset_transaction_def
          user_update_password_def passwordReset_update_used_def bcrypt_hash_def ex_env_def
          ex_store_def ex_user_def ex_refresh_row_def ex_reset_row_def ex_refresh_at_def
          ex_reset_at_def ex_access_at_def)
  have d: "jwt_verify (ex_access_at 6) (JWT_SECRET ex_env) 6000 =
     Inr \<lparr>payload_userId = 1, payload_type = ''access'', payload_iat = 6, payload_exp = 906\<rparr>"
    by (simp add: jwt_verify_def ex_env_def ex_access_at_def)
  have k: "payload_type \<lparr>payload_userId = 1, payload_type = ''access'', payload_iat = 6,
                         payload_exp = 906\<rparr> \<noteq> ''password-reset''"
    by simp
  from failure_codes[THEN conjunct1, rule_format, OF a]
       failure_codes[THEN conjunct2, THEN conjunct1, rule_format, OF b]
       failure_codes[THEN conjunct2, THEN conjunct2, THEN conjunct1, rule_format, OF c]
       failure_codes[THEN conjunct2, THEN conjunct2, THEN conjunct2, rule_format,
         OF conjI[OF d k], of ex_store "''new-pass''"]
       a b c d
  show ?thesis by simp
qed

text \<open>
  The claim as stated fails for \<open>resetPassword\<close>: its failure paths do not return one
  error. In the example deployment a token that is no JWT is refused with
  \<^verbatim>\<open>Invalid or expired reset token\<close>, a well-signed credential whose row has been used
  is refused with the same message, and an access credential, which verifies under the
  shared key, is refused with \<^verbatim>\<open>Invalid reset token\<close>: the response tells the caller
  that the kind check is the one that failed.
\<close>

theorem reset_wrong_kind_distinct_error:
  "snd (resetPassword ex_env 5000 ex_store (NotAJwt ''junk'') ''new-pass'') =
     Inl (AppError ''Invalid or expired reset token'' 400) \<and>
   snd (resetPassword ex_env 5000 (reset_written ex_store 1 ''pass-one'' 1) (ex_reset_at 0)
          ''new-pass'') =
     Inl (AppError ''Invalid or expired reset token'' 400) \<and>
   snd (resetPassword ex_env 5000 ex_store (ex_access_at 5) ''new-pass'') =
     Inl (AppError ''Invalid reset token'' 400) \<and>
   snd (resetPassword ex_env 5000 ex_store (ex_access_at 5) ''new-pass'') \<noteq>
     snd (resetPassword ex_env 5000 ex_store (NotAJwt ''junk'') ''new-pass'')"
  by (simp add: refreshToken_def refresh_check_def verifyRefreshToken_def jwt_verify_def
        refreshToken_findFirst_def refresh_rotate_def generateTokens_def jwt_sign_def
        refreshToken_update_def resetPassword_def reset_check_def
        passwordReset_findFirst_def reset_commit_def reset_transaction_def
        user_update_password_def passwordReset_update_used_def bcrypt_hash_def
        reset_written_def ex_env_def ex_store_def ex_user_def ex_refresh_row_def
        ex_reset_row_def ex_refresh_at_def ex_reset_at_def ex_access_at_def)

subsection \<open>C8: issue, then verify\<close>

text \<open>
  C8. A credential verified with the configuration it was issued under, at any time
  \<open>now'\<close> at which its own expiry has not passed, yields the principal it was issued
  for, by the verifier of its kind: the access half of \<open>generateTokens e now uid\<close>
  verifies under \<open>JWT_SECRET\<close> with \<open>userId = uid\<close> and \<open>type = access\<close>, and
  \<open>authenticate\<close> accepts it and returns \<open>uid\<close>; \<open>verifyRefreshToken\<close> returns a
  payload with \<open>userId = uid\<close> and \<open>type = refresh\<close> for the refresh half, and does so
  at the instant of issue itself whenever the refresh lifetime is at least one second;
  the credential \<open>forgotPassword\<close> stores for a user passes the verification and the
  lookup of \<open>resetPassword\<close> with that user's id and \<open>type = password-reset\<close>.
\<close>

theorem issue_verify_roundtrip:
  "(generateTokens e now uid = Inr (acc, ref) \<longrightarrow>
      (\<not> expired now' acc \<longrightarrow>
         (\<exists>p. jwt_verify acc (JWT_SECRET e) now' = Inr p \<and>
              payload_userId p = uid \<and> payload_type p = ''access'') \<and>
         authenticate e now' (Bearer acc) = Inr uid) \<and>
      (\<not> expired now' ref \<longrightarrow>
         (\<exists>p. verifyRefreshToken e now' ref = Some p \<and>
              payload_userId p = uid \<and> payload_type p = ''refresh'')) \<and>
      (refresh_lifetime e = Millis m \<and> 1000 \<le> m \<longrightarrow>
         (\<exists>p. verifyRefreshToken e now ref = Some p \<and>
              payload_userId p = uid \<and> payload_type p = ''refresh''))) \<and>
   (user_findUnique s em = Some u \<and> forgotPassword e now s em = (s', Inr resp) \<and>
    \<not> expired now' (token (last (passwordResets s'))) \<longrightarrow>
      (\<exists>p r. reset_check e now' s' (token (last (passwordResets s'))) = Inr (p, r) \<and>
             payload_userId p = id' u \<and> payload_type p = ''password-reset'' \<and>
             token r = token (last (passwordResets s')) \<and> userId r = id' u))"
proof (intro conjI impI)
  assume g: "generateTokens e now uid = Inr (acc, ref)"
     and ne: "\<not> expired now' acc"
  from sign_verify[OF generateTokens_Inr[OF g, THEN conjunct1] ne]
  show "\<exists>p. jwt_verify acc (JWT_SECRET e) now' = Inr p \<and>
              payload_userId p = uid \<and> payload_type p = ''access''" .
  from sign_verify[OF generateTokens_Inr[OF g, THEN conjunct1] ne]
  show "authenticate e now' (Bearer acc) = Inr uid"
    by (auto simp: authenticate_def dest: jwt_verify_Inr)
next
  assume g: "generateTokens e now uid = Inr (acc, ref)"
     and ne: "\<not> expired now' ref"
  from sign_verify[OF generateTokens_Inr[OF g, THEN conjunct2] ne]
  show "\<exists>p. verifyRefreshToken e now' ref = Some p \<and>
              payload_userId p = uid \<and> payload_type p = ''refresh''"
    by (auto simp: verifyRefreshToken_def)
next
  assume g: "generateTokens e now uid = Inr (acc, ref)"
     and m: "refresh_lifetime e = Millis m \<and> 1000 \<le> m"
  from m fresh_refresh_not_expired[OF g, of m] have ne: "\<not> expired now ref"
    by blast
  from sign_verify[OF generateTokens_Inr[OF g, THEN conjunct2] ne]
  show "\<exists>p. verifyRefreshToken e now ref = Some p \<and>
              payload_userId p = uid \<and> payload_type p = ''refresh''"
    by (auto simp: verifyRefreshToken_def)
next
  let ?tk = "token (last (passwordResets s'))"
  assume a: "user_findUnique s em = Some u \<and> forgotPassword e now s em = (s', Inr resp) \<and>
    \<not> expired now' ?tk"
  then obtain tk where
    sg: "jwt_sign (id' u) ''password-reset'' (JWT_SECRET e) (Millis (60 * 60 * 1000)) now = Inr tk"
    and s': "s' = passwordReset_create s tk (id' u) (now + 60 * 60 * 1000)"
    by (auto simp: forgotPassword_def split: sum.splits)
  have tk: "?tk = tk" by (simp add: s' passwordReset_create_def)
  with a have ne: "\<not> expired now' tk" by simp
  from sign_verify[OF sg ne] obtain p where
    p: "jwt_verify tk (JWT_SECRET e) now' = Inr p" "payload_userId p = id' u"
       "payload_type p = ''password-reset''"
    by blast
  from jwt_sign_Inr[OF sg] ne have "now' div 1000 < now div 1000 + 3600"
    by (auto simp: expired_def)
  then have lt: "now' < now + 60 * 60 * 1000" by linarith
  let ?P = "\<lambda>r::password_reset.
              token r = tk \<and> userId r = id' u \<and> used r = False \<and> expiresAt r > now'"
  have "\<exists>y. find ?P (passwordResets s @
          [\<lparr>id' = fresh_id (map id' (passwordResets s)), token = tk,
            userId = id' u, expiresAt = now + 60 * 60 * 1000, used = False\<rparr>]) = Some y \<and> ?P y"
    by (rule find_append_ex) (use lt in simp)
  then obtain r where
    r: "passwordReset_findFirst s' tk (id' u) now' = Some r" "token r = tk" "userId r = id' u"
    by (auto simp: passwordReset_findFirst_def s' passwordReset_create_def)
  show "\<exists>p r. reset_check e now' s' ?tk = Inr (p, r) \<and>
             payload_userId p = id' u \<and> payload_type p = ''password-reset'' \<and>
             token r = ?tk \<and> userId r = id' u"
    unfolding tk using p r by (auto simp: reset_check_def)
qed

text \<open>
  The example deployment at time 5000: the pair issued for user 1 verifies in the same
  millisecond, and so does the reset credential stored for \<^verbatim>\<open>a@x.com\<close>.
\<close>

theorem issue_verify_roundtrip_witness:
  "generateTokens ex_env 5000 1 = Inr (ex_access_at 5, ex_refresh_at 5) \<and>
   \<not> expired 5000 (ex_access_at 5) \<and>
   (\<exists>p. jwt_verify (ex_access_at 5) (JWT_SECRET ex_env) 5000 = Inr p \<and>
        payload_userId p = 1 \<and> payload_type p = ''access'') \<and>
   authenticate ex_env 5000 (Bearer (ex_access_at 5)) = Inr 1 \<and>
   \<not> expired 5000 (ex_refresh_at 5) \<and>
   refresh_lifetime ex_env = Millis 604800000 \<and>
   (\<exists>p. verifyRefreshToken ex_env 5000 (ex_refresh_at 5) = Some p \<and>
        payload_userId p = 1 \<and> payload_type p = ''refresh'') \<and>
   user_findUnique ex_store ''a@x.com'' = Some ex_user \<and>
   forgotPassword ex_env 5000 ex_store ''a@x.com'' =
     (passwordReset_create ex_store (ex_reset_at 5) 1 3605000, Inr (reset_requested 5000)) \<and>
   token (last (passwordResets (passwordReset_create ex_store (ex_reset_at 5) 1 3605000))) =
     ex_reset_at 5 \<and>
   \<not> expired 5000 (ex_reset_at 5) \<and>
   (\<exists>p r. reset_check ex_env 5000 (passwordReset_create ex_store (ex_reset_at 5) 1 3605000)
            (ex_reset_at 5) = Inr (p, r) \<and>
          payload_userId p = 1 \<and> payload_type p = ''password-reset'' \<and>
          token r = ex_reset_at 5 \<and> userId r = 1)"
proof -
  have g: "generateTokens ex_env 5000 1 = Inr (ex_access_at 5, ex_refresh_at 5)"
    by (simp add: generateTokens_def jwt_sign_def jwt_verify_def authenticate_def
          verifyRefreshToken_def user_findUnique_def forgotPassword_def
          passwordReset_create_def fresh_id_def reset_check_def passwordReset_findFirst_def
          ex_env_def ex_store_def ex_user_def ex_refresh_row_def ex_reset_row_def
          ex_refresh_at_def ex_reset_at_def ex_access_at_def)
  have na: "\<not> expired 5000 (ex_access_at 5)" and nr: "\<not> expired 5000 (ex_refresh_at 5)"
    and nt: "\<not> expired 5000 (ex_reset_at 5)"
    by (simp_all add: expired_def refresh_lifetime_def reset_requested_def ex_env_def
          ex_store_def ex_user_def ex_refresh_row_def ex_reset_row_def ex_refresh_at_def
          ex_reset_at_def ex_access_at_def)
  have l: "refresh_lifetime ex_env = Millis 604800000"
    by (simp add: expired_def refresh_lifetime_def reset_requested_def ex_env_def
          ex_store_def ex_user_def ex_refresh_row_def ex_reset_row_def ex_refresh_at_def
          ex_reset_at_def ex_access_at_def)
  have u: "user_findUnique ex_store ''a@x.com'' = Some ex_user"
    by (simp add: generateTokens_def jwt_sign_def jwt_verify_def authenticate_def
          verifyRefreshToken_def user_findUnique_def forgotPassword_def
          passwordReset_create_def fresh_id_def reset_check_def passwordReset_findFirst_def
          ex_env_def ex_store_def ex_user_def ex_refresh_row_def ex_reset_row_def
          ex_refresh_at_def ex_reset_at_def ex_access_at_def)
  have f: "forgotPassword ex_env 5000 ex_store ''a@x.com'' =
     (passwordReset_create ex_store (ex_reset_at 5) 1 3605000, Inr (reset_requested 5000))"
    by (simp add: generateTokens_def jwt_sign_def jwt_verify_def authenticate_def
          verifyRefreshToken_def user_findUnique_def forgotPassword_def
          passwordReset_create_def fresh_id_def reset_check_def passwordReset_findFirst_def
          expired_def refresh_lifetime_def reset_requested_def ex_env_def ex_store_def
          ex_user_def ex_refresh_row_def ex_reset_row_def ex_refresh_at_def ex_reset_at_def
          ex_access_at_def)
  have t: "token (last (passwordResets (passwordReset_create ex_store (ex_reset_at 5) 1 3605000))) =
     ex_reset_at 5"
    by (simp add: passwordReset_create_def)
  have iu: "id' ex_user = 1" by (simp add: ex_env_def ex_store_def ex_user_def
        ex_refresh_row_def ex_reset_row_def ex_refresh_at_def ex_reset_at_def
        ex_access_at_def)
  note inst = issue_verify_roundtrip[of ex_env 5000 1 "ex_access_at 5" "ex_refresh_at 5" 5000
               604800000 ex_store "''a@x.com''" ex_user
               "passwordReset_create ex_store (ex_reset_at 5) 1 3605000" "reset_requested 5000"]
  from inst g na nr l u f nt show ?thesis
    unfolding t iu by simp
qed

subsection \<open>C9: what a rotation changes\<close>

text \<open>
  C9. A successful \<open>refreshToken\<close> rewrites the stored row in place: the rows carrying
  the identifier of the row that was read get the new refresh token and the new
  \<open>expiresAt\<close>, and nothing else changes. The identifiers, the \<open>userId\<close>s and the
  \<open>createdAt\<close>s of the refresh table are the same list as before, so no row is added or
  removed for any principal; the users and the reset rows are untouched.
\<close>

theorem rotation_frame:
  "refreshToken e now s tok = (s', Inr resp) \<longrightarrow>
     (\<exists>p r a nr.
        refresh_check e now s tok = Inr (p, r) \<and> r \<in> set (refreshTokens s) \<and>
        resp = \<lparr>status = 200, data = TokenData a nr, timestamp = now\<rparr> \<and>
        refreshTokens s' =
          map (\<lambda>x. if id' x = id' r
                   then x\<lparr>token := nr, expiresAt := now + 7 * 24 * 60 * 60 * 1000\<rparr>
                   else x) (refreshTokens s) \<and>
        map id' (refreshTokens s') = map id' (refreshTokens s) \<and>
        map userId (refreshTokens s') = map userId (refreshTokens s) \<and>
        map createdAt (refreshTokens s') = map createdAt (refreshTokens s) \<and>
        users s' = users s \<and> passwordResets s' = passwordResets s)"
proof
  assume "refreshToken e now s tok = (s', Inr resp)"
  from refreshToken_Inr[OF this] obtain p r a nr where
    chk: "refresh_check e now s tok = Inr (p, r)" and
    resp: "resp = \<lparr>status = 200, data = TokenData a nr, timestamp = now\<rparr>" and
    s': "s' = s\<lparr>refreshTokens :=
                 map (\<lambda>x. if id' x = id' r
                          then x\<lparr>token := nr, expiresAt := now + 7 * 24 * 60 * 60 * 1000\<rparr>
                          else x) (refreshTokens s)\<rparr>"
    by blast
  from refresh_check_Inr[OF chk] have r: "r \<in> set (refreshTokens s)" by simp
  have m1: "map id' (refreshTokens s') = map id' (refreshTokens s)"
    unfolding s' by (simp add: comp_def if_distrib[of id'] cong: if_cong)
  have m2: "map userId (refreshTokens s') = map userId (refreshTokens s)"
    unfolding s' by (simp add: comp_def if_distrib[of userId] cong: if_cong)
  have m3: "map createdAt (refreshTokens s') = map createdAt (refreshTokens s)"
    unfolding s' by (simp add: comp_def if_distrib[of createdAt] cong: if_cong)
  show "\<exists>p r a nr.
        refresh_check e now s tok = Inr (p, r) \<and> r \<in> set (refreshTokens s) \<and>
        resp = \<lparr>status = 200, data = TokenData a nr, timestamp = now\<rparr> \<and>
        refreshTokens s' =
          map (\<lambda>x. if id' x = id' r
                   then x\<lparr>token := nr, expiresAt := now + 7 * 24 * 60 * 60 * 1000\<rparr>
                   else x) (refreshTokens s) \<and>
        map id' (refreshTokens s') = map id' (refreshTokens s) \<and>
        map userId (refreshTokens s') = map userId (refreshTokens s) \<and>
        map createdAt (refreshTokens s') = map createdAt (refreshTokens s) \<and>
        users s' = users s \<and> passwordResets s' = passwordResets s"
    using chk r resp m1 m2 m3
    by (intro exI[of _ p] exI[of _ r] exI[of _ a] exI[of _ nr]) (simp add: s')
qed

text \<open>
  The example deployment: the refresh credential issued at time 0 is rotated at time
  5000; row 1 keeps its identifier, owner and creation time.
\<close>

theorem rotation_frame_witness:
  "refreshToken ex_env 5000 ex_store (ex_refresh_at 0) =
     (ex_store\<lparr>refreshTokens :=
         [ex_refresh_row\<lparr>token := ex_refresh_at 5, expiresAt := 604805000\<rparr>]\<rparr>,
      Inr \<lparr>status = 200, data = TokenData (ex_access_at 5) (ex_refresh_at 5),
           timestamp = 5000\<rparr>) \<and>
   (\<exists>p r a nr.
      refresh_check ex_env 5000 ex_store (ex_refresh_at 0) = Inr (p, r) \<and>
      r \<in> set (refreshTokens ex_store) \<and>
      map id' [ex_refresh_row\<lparr>token := ex_refresh_at 5, expiresAt := 604805000\<rparr>] =
        map id' (refreshTokens ex_store) \<and>
      map userId [ex_refresh_row\<lparr>token := ex_refresh_at 5, expiresAt := 604805000\<rparr>] =
        map userId (refreshTokens ex_store) \<and>
      map createdAt [ex_refresh_row\<lparr>token := ex_refresh_at 5, expiresAt := 604805000\<rparr>] =
        map createdAt (refreshTokens ex_store))"
proof -
  have h: "refreshToken ex_env 5000 ex_store (ex_refresh_at 0) =
     (ex_store\<lparr>refreshTokens :=
         [ex_refresh_row\<lparr>token := ex_refresh_at 5, expiresAt := 604805000\<rparr>]\<rparr>,
      Inr \<lparr>status = 200, data = TokenData (ex_access_at 5) (ex_refresh_at 5),
           timestamp = 5000\<rparr>)"
    by (simp add: refreshToken_def refresh_check_def verifyRefreshToken_def jwt_verify_def
          refreshToken_findFirst_def refresh_rotate_def generateTokens_def jwt_sign_def
          refreshToken_update_def ex_env_def ex_store_def ex_user_def ex_refresh_row_def
          ex_reset_row_def ex_refresh_at_def ex_reset_at_def ex_access_at_def)
  from rotation_frame[of ex_env 5000 ex_store "ex_refresh_at 0"
         "ex_store\<lparr>refreshTokens :=
            [ex_refresh_row\<lparr>token := ex_refresh_at 5, expiresAt := 604805000\<rparr>]\<rparr>"
         "\<lparr>status = 200, data = TokenData (ex_access_at 5) (ex_refresh_at 5),
           timestamp = 5000\<rparr>"] h
  show ?thesis by auto
qed

subsection \<open>C10: the stored expiry\<close>

text \<open>
  C10. Every successful \<open>register\<close>, \<open>login\<close> and \<open>refreshToken\<close> writes
  \<open>expiresAt = now + 7 * 24 * 60 * 60 * 1000\<close> into the refresh row it creates or rotates,
  whatever \<open>JWT_REFRESH_EXPIRES_IN\<close> is, while the expiry signed into the token of that
  row is \<open>now div 1000 + m div 1000\<close> for the configured lifetime of \<open>m\<close> milliseconds
  (\<open>expiry_written\<close>). The stored expiry, in whole seconds, exceeds the signed one by
  \<open>604800 - m div 1000\<close>: the two agree, to the second, exactly when the configured
  lifetime is seven days to the second.
\<close>

theorem stored_expiry_seven_days:
  "(register e now s em pw nm = (s', Inr resp) \<longrightarrow>
      (\<exists>r. refreshTokens s' = refreshTokens s @ [r] \<and> expiry_written e now r)) \<and>
   (login e now s em pw = (s', Inr resp) \<longrightarrow>
      (\<exists>u r. login_check s em pw = Inr u \<and>
             refreshTokens s' = filter (\<lambda>x. userId x \<noteq> id' u) (refreshTokens s) @ [r] \<and>
             expiry_written e now r)) \<and>
   (refreshToken e now s tok = (s', Inr resp) \<longrightarrow>
      (\<exists>p r. refresh_check e now s tok = Inr (p, r) \<and>
             (\<exists>x\<in>set (refreshTokens s'). id' x = id' r) \<and>
             (\<forall>x\<in>set (refreshTokens s'). id' x = id' r \<longrightarrow> expiry_written e now x)))"
proof (intro conjI impI)
  assume "register e now s em pw nm = (s', Inr resp)"
  from register_tokens[OF this] obtain u :: user and a r x where
    g: "generateTokens e now (id' u) = Inr (a, r)" and
    x: "token x = r" "expiresAt x = now + 7 * 24 * 60 * 60 * 1000"
       "refreshTokens s' = refreshTokens s @ [x]" by blast
  from x have "x = x\<lparr>token := r, expiresAt := now + 7 * 24 * 60 * 60 * 1000\<rparr>" by simp
  with expiry_written_row[OF g, of x] have "expiry_written e now x" by simp
  with x show "\<exists>r. refreshTokens s' = refreshTokens s @ [r] \<and> expiry_written e now r"
    by blast
next
  assume "login e now s em pw = (s', Inr resp)"
  from login_tokens[OF this] obtain u a r x where
    c: "login_check s em pw = Inr u" and
    g: "generateTokens e now (id' u) = Inr (a, r)" and
    x: "token x = r" "expiresAt x = now + 7 * 24 * 60 * 60 * 1000"
       "refreshTokens s' = filter (\<lambda>y. userId y \<noteq> id' u) (refreshTokens s) @ [x]" by blast
  from x have "x = x\<lparr>token := r, expiresAt := now + 7 * 24 * 60 * 60 * 1000\<rparr>" by simp
  with expiry_written_row[OF g, of x] have "expiry_written e now x" by simp
  with c x show "\<exists>u r. login_check s em pw = Inr u \<and>
             refreshTokens s' = filter (\<lambda>x. userId x \<noteq> id' u) (refreshTokens s) @ [r] \<and>
             expiry_written e now r"
    by blast
next
  assume "refreshToken e now s tok = (s', Inr resp)"
  from refreshToken_Inr[OF this] obtain p r a nr where
    chk: "refresh_check e now s tok = Inr (p, r)" and
    g: "generateTokens e now (payload_userId p) = Inr (a, nr)" and
    s': "s' = s\<lparr>refreshTokens :=
                 map (\<lambda>x. if id' x = id' r
                          then x\<lparr>token := nr, expiresAt := now + 7 * 24 * 60 * 60 * 1000\<rparr>
                          else x) (refreshTokens s)\<rparr>"
    by blast
  from refresh_check_Inr[OF chk] have ex: "\<exists>x\<in>set (refreshTokens s). id' x = id' r" by blast
  have 1: "\<exists>x\<in>set (refreshTokens s'). id' x = id' r"
    using ex unfolding bex_id_iff s' by (simp add: ids_after_update del: map_map set_map)
  have 2: "\<forall>x\<in>set (refreshTokens s'). id' x = id' r \<longrightarrow> expiry_written e now x"
    unfolding s' using expiry_written_row[OF g] by auto
  from chk 1 2 show "\<exists>p r. refresh_check e now s tok = Inr (p, r) \<and>
             (\<exists>x\<in>set (refreshTokens s'). id' x = id' r) \<and>
             (\<forall>x\<in>set (refreshTokens s'). id' x = id' r \<longrightarrow> expiry_written e now x)"
    by blast
qed

text \<open>
  The example deployment with the refresh lifetime set to one day: a login at time 5000
  stores \<open>expiresAt = 604805000\<close>, seven days on, for a token whose signed expiry is
  second \<open>86405\<close>, one day on; registration and rotation store the same seven days.
\<close>

theorem stored_expiry_seven_days_witness:
  "snd (register ex_env_1d 5000 ex_store ''b@x.com'' ''password'' ''Bob'') =
     Inr \<lparr>status = 201,
          data = AuthData \<lparr>ur_id = 2, ur_email = ''b@x.com'', ur_name = ''Bob''\<rparr>
                   (Jwt \<lparr>payload_userId = 2, payload_type = ''access'', payload_iat = 5,
                         payload_exp = 905\<rparr> ''ka'')
                   (Jwt \<lparr>payload_userId = 2, payload_type = ''refresh'', payload_iat = 5,
                         payload_exp = 86405\<rparr> ''kr''),
          timestamp = 5000\<rparr> \<and>
   (\<exists>r. refreshTokens (fst (register ex_env_1d 5000 ex_store ''b@x.com'' ''password'' ''Bob'')) =
          refreshTokens ex_store @ [r] \<and> expiry_written ex_env_1d 5000 r) \<and>
   snd (login ex_env_1d 5000 ex_store ''a@x.com'' ''pw'') =
     Inr \<lparr>status = 200,
          data = AuthData \<lparr>ur_id = 1, ur_email = ''a@x.com'', ur_name = ''Ann''\<rparr>
                   (ex_access_at 5) ex_refresh_1d,
          timestamp = 5000\<rparr> \<and>
   refreshTokens (fst (login ex_env_1d 5000 ex_store ''a@x.com'' ''pw'')) =
     [\<lparr>id' = 1, token = ex_refresh_1d, userId = 1, expiresAt = 604805000, createdAt = 5000\<rparr>] \<and>
   (\<exists>u r. login_check ex_store ''a@x.com'' ''pw'' = Inr u \<and>
          refreshTokens (fst (login ex_env_1d 5000 ex_store ''a@x.com'' ''pw'')) =
            filter (\<lambda>x. userId x \<noteq> id' u) (refreshTokens ex_store) @ [r] \<and>
          expiry_written ex_env_1d 5000 r) \<and>
   snd (refreshToken ex_env_1d 5000 ex_store (ex_refresh_at 0)) =
     Inr \<lparr>status = 200, data = TokenData (ex_access_at 5) ex_refresh_1d, timestamp = 5000\<rparr> \<and>
   refreshTokens (fst (refreshToken ex_env_1d 5000 ex_store (ex_refresh_at 0))) =
     [\<lparr>id' = 1, token = ex_refresh_1d, userId = 1, expiresAt = 604805000, createdAt = 0\<rparr>] \<and>
   (\<exists>p r. refresh_check ex_env_1d 5000 ex_store (ex_refresh_at 0) = Inr (p, r) \<and>
          (\<exists>x\<in>set (refreshTokens (fst (refreshToken ex_env_1d 5000 ex_store (ex_refresh_at 0)))).
              id' x = id' r) \<and>
          (\<forall>x\<in>set (refreshTokens (fst (refreshToken ex_env_1d 5000 ex_store (ex_refresh_at 0)))).
              id' x = id' r \<longrightarrow> expiry_written ex_env_1d 5000 x))"
proof -
  let ?reg = "register ex_env_1d 5000 ex_store ''b@x.com'' ''password'' ''Bob''"
  let ?log = "login ex_env_1d 5000 ex_store ''a@x.com'' ''pw''"
  let ?rot = "refreshToken ex_env_1d 5000 ex_store (ex_refresh_at 0)"
  have r1: "snd ?reg =
     Inr \<lparr>status = 201,
          data = AuthData \<lparr>ur_id = 2, ur_email = ''b@x.com'', ur_name = ''Bob''\<rparr>
                   (Jwt \<lparr>payload_userId = 2, payload_type = ''access'', payload_iat = 5,
                         payload_exp = 905\<rparr> ''ka'')
                   (Jwt \<lparr>payload_userId = 2, payload_type = ''refresh'', payload_iat = 5,
                         payload_exp = 86405\<rparr> ''kr''),
          timestamp = 5000\<rparr>"
    by (simp add: refreshToken_def refresh_check_def verifyRefreshToken_def jwt_verify_def
          refreshToken_findFirst_def refresh_rotate_def generateTokens_def jwt_sign_def
          refreshToken_update_def login_def login_check_def user_findUnique_def
          bcrypt_compare_def refreshToken_deleteMany_def refreshToken_create_def
          fresh_id_def user_update_lastLoginAt_def formatUserResponse_def register_def
          user_create_def bcrypt_hash_def ex_env_def ex_store_def ex_user_def
          ex_refresh_row_def ex_reset_row_def ex_refresh_at_def ex_reset_at_def
          ex_access_at_def ex_env_1d_def ex_refresh_1d_def Let_def)
  have l1: "snd ?log =
     Inr \<lparr>status = 200,
          data = AuthData \<lparr>ur_id = 1, ur_email = ''a@x.com'', ur_name = ''Ann''\<rparr>
                   (ex_access_at 5) ex_refresh_1d,
          timestamp = 5000\<rparr>"
    by (simp add: refreshToken_def refresh_check_def verifyRefreshToken_def jwt_verify_def
          refreshToken_findFirst_def refresh_rotate_def generateTokens_def jwt_sign_def
          refreshToken_update_def login_def login_check_def user_findUnique_def
          bcrypt_compare_def refreshToken_deleteMany_def refreshToken_create_def
          fresh_id_def user_update_lastLoginAt_def formatUserResponse_def register_def
          user_create_def bcrypt_hash_def ex_env_def ex_store_def ex_user_def
          ex_refresh_row_def ex_reset_row_def ex_refresh_at_def ex_reset_at_def
          ex_access_at_def ex_env_1d_def ex_refresh_1d_def Let_def)
  have l2: "refreshTokens (fst ?log) =
     [\<lparr>id' = 1, token = ex_refresh_1d, userId = 1, expiresAt = 604805000, createdAt = 5000\<rparr>]"
    by (simp add: refreshToken_def refresh_check_def verifyRefreshToken_def jwt_verify_def
          refreshToken_findFirst_def refresh_rotate_def generateTokens_def jwt_sign_def
          refreshToken_update_def login_def login_check_def user_findUnique_def
          bcrypt_compare_def refreshToken_deleteMany_def refreshToken_create_def
          fresh_id_def user_update_lastLoginAt_def formatUserResponse_def register_def
          user_create_def bcrypt_hash_def ex_env_def ex_store_def ex_user_def
          ex_refresh_row_def ex_reset_row_def ex_refresh_at_def ex_reset_at_def
          ex_access_at_def ex_env_1d_def ex_refresh_1d_def Let_def)
  have t1: "snd ?rot =
     Inr \<lparr>status = 200, data = TokenData (ex_access_at 5) ex_refresh_1d, timestamp = 5000\<rparr>"
    by (simp add: refreshToken_def refresh_check_def verifyRefreshToken_def jwt_verify_def
          refreshToken_findFirst_def refresh_rotate_def generateTokens_def jwt_sign_def
          refreshToken_update_def login_def login_check_def user_findUnique_def
          bcrypt_compare_def refreshToken_deleteMany_def refreshToken_create_def
          fresh_id_def user_update_lastLoginAt_def formatUserResponse_def register_def
          user_create_def bcrypt_hash_def ex_env_def ex_store_def ex_user_def
          ex_refresh_row_def ex_reset_row_def ex_refresh_at_def ex_reset_at_def
          ex_access_at_def ex_env_1d_def ex_refresh_1d_def Let_def)
  have t2: "refreshTokens (fst ?rot) =
     [\<lparr>id' = 1, token = ex_refresh_1d, userId = 1, expiresAt = 604805000, createdAt = 0\<rparr>]"
    by (simp add: refreshToken_def refresh_check_def verifyRefreshToken_def jwt_verify_def
          refreshToken_findFirst_def refresh_rotate_def generateTokens_def jwt_sign_def
          refreshToken_update_def login_def login_check_def user_findUnique_def
          bcrypt_compare_def refreshToken_deleteMany_def refreshToken_create_def
          fresh_id_def user_update_lastLoginAt_def formatUserResponse_def register_def
          user_create_def bcrypt_hash_def ex_env_def ex_store_def ex_user_def
          ex_refresh_row_def ex_reset_row_def ex_refresh_at_def ex_reset_at_def
          ex_access_at_def ex_env_1d_def ex_refresh_1d_def Let_def)
  from r1 have r0: "?reg = (fst ?reg, Inr \<lparr>status = 201,
          data = AuthData \<lparr>ur_id = 2, ur_email = ''b@x.com'', ur_name = ''Bob''\<rparr>
                   (Jwt \<lparr>payload_userId = 2, payload_type = ''access'', payload_iat = 5,
                         payload_exp = 905\<rparr> ''ka'')
                   (Jwt \<lparr>payload_userId = 2, payload_type = ''refresh'', payload_iat = 5,
                         payload_exp = 86405\<rparr> ''kr''),
          timestamp = 5000\<rparr>)"
    by (metis prod.collapse)
  from l1 have l0: "?log = (fst ?log, Inr \<lparr>status = 200,
          data = AuthData \<lparr>ur_id = 1, ur_email = ''a@x.com'', ur_name = ''Ann''\<rparr>
                   (ex_access_at 5) ex_refresh_1d,
          timestamp = 5000\<rparr>)"
    by (metis prod.collapse)
  from t1 have t0: "?rot = (fst ?rot, Inr \<lparr>status = 200,
          data = TokenData (ex_access_at 5) ex_refresh_1d, timestamp = 5000\<rparr>)"
    by (metis prod.collapse)
  from stored_expiry_seven_days[THEN conjunct1, rule_format, OF r0]
       stored_expiry_seven_days[THEN conjunct2, THEN conjunct1, rule_format, OF l0]
       stored_expiry_seven_days[THEN conjunct2, THEN conjunct2, rule_format, OF t0]
       r1 l1 l2 t1 t2
  show ?thesis by blast
qed

end
